theory Spec2Isabelle
  imports Main "HOL-Library.AList"
begin

section \<open>JSON values as the Python code sees them\<close>

text \<open>
  The gateway in \<^verbatim>\<open>src/backEnd/app.py\<close> moves JSON between the client, the fixture
  files and the remote store. A JSON value is what \<^verbatim>\<open>json.load\<close>, \<^verbatim>\<open>request.json\<close>
  and \<^verbatim>\<open>response.json()\<close> return: \<^verbatim>\<open>None\<close>, a bool, an int, a str, a list or a
  dict. A dict is an association list in insertion order; a lookup reads the first
  entry of a key. Numbers that are not integers are left out of the model, and a
  string is a list of 8-bit characters, read as the code points below 256.
\<close>

datatype json =
    JNull
  | JBool bool
  | JInt int
  | JStr string
  | JList "json list"
  | JDict "(string \<times> json) list"

text \<open>The exceptions the code can raise; the handlers catch every one of them.\<close>

datatype exn =
    ValueError string          \<comment> \<open>\<^verbatim>\<open>supabase_fetch\<close>: unknown module\<close>
  | SupabaseApiError nat string \<comment> \<open>\<^verbatim>\<open>Exception("Supabase API Error {status}: {msg}")\<close>\<close>
  | InsertFailed               \<comment> \<open>\<^verbatim>\<open>add_card\<close>: empty result of the insert\<close>
  | DigitLimit                 \<comment> \<open>ValueError of \<^verbatim>\<open>str\<close> on an int beyond the limit of digits\<close>
  | HTTPError nat              \<comment> \<open>\<^verbatim>\<open>raise_for_status()\<close>\<close>
  | AttributeError
  | TypeError
  | KeyError string
  | IndexError
  | FileNotFoundError string
  | JSONDecodeError

text \<open>Python's truth value of a JSON value (\<^verbatim>\<open>not x\<close> is its negation).\<close>

fun truthy :: "json \<Rightarrow> bool" where
  "truthy JNull = False"
| "truthy (JBool b) = b"
| "truthy (JInt i) = (i \<noteq> 0)"
| "truthy (JStr s) = (s \<noteq> [])"
| "truthy (JList xs) = (xs \<noteq> [])"
| "truthy (JDict d) = (d \<noteq> [])"

text \<open>\<^verbatim>\<open>d.get(k, default)\<close> on a dict.\<close>

definition dict_get :: "(string \<times> json) list \<Rightarrow> string \<Rightarrow> json \<Rightarrow> json" where
  "dict_get d k dflt = (case map_of d k of None \<Rightarrow> dflt | Some v \<Rightarrow> v)"

text \<open>
  \<^verbatim>\<open>for x in v\<close>: a list gives its elements, a dict its keys, a str its characters;
  anything else raises TypeError.
\<close>

fun py_iter :: "json \<Rightarrow> exn + json list" where
  "py_iter (JList xs) = Inr xs"
| "py_iter (JDict d) = Inr (map (\<lambda>kv. JStr (fst kv)) d)"
| "py_iter (JStr s) = Inr (map (\<lambda>c. JStr [c]) s)"
| "py_iter _ = Inl TypeError"

text \<open>\<^verbatim>\<open>len(v)\<close>.\<close>

fun py_len :: "json \<Rightarrow> exn + nat" where
  "py_len (JList xs) = Inr (length xs)"
| "py_len (JDict d) = Inr (length d)"
| "py_len (JStr s) = Inr (length s)"
| "py_len _ = Inl TypeError"

section \<open>The remote store as the gateway sees it\<close>

text \<open>
  Every remote call is one HTTP request to the table of a module and one response.
  The URL prefix and the headers come from \<^verbatim>\<open>config.py\<close>, which is constant, so a
  request is its method, its table, its query parameters and its JSON body. Of the
  response the code reads the status (\<^verbatim>\<open>ok\<close>, \<^verbatim>\<open>raise_for_status\<close>), the text, the
  reason and the parsed body (\<open>None\<close> when \<^verbatim>\<open>response.json()\<close> raises
  JSONDecodeError).

  The remote itself is a parameter of every operation: a function from a request and
  the state of the world to a response and the next state.
\<close>

datatype http_method = GET | POST | PATCH | DELETE

record request =
  req_method :: http_method
  req_table :: string
  req_params :: "(string \<times> string) list"
  req_json :: "json option"

record response =
  status_code :: nat
  resp_text :: string
  resp_reason :: string
  resp_json :: "json option"

type_synonym 'w remote = "request \<Rightarrow> 'w \<Rightarrow> response \<times> 'w"

text \<open>\<^verbatim>\<open>MODULE_TO_TABLE\<close> of \<^verbatim>\<open>config.py\<close>: a dict from module ids to table names.\<close>

type_synonym config = "(string \<times> string) list"

text \<open>\<^verbatim>\<open>raise_for_status\<close> raises on a status from 400 to 599; \<^verbatim>\<open>ok\<close> is that it does not.\<close>

definition ok :: "response \<Rightarrow> bool" where
  "ok r = (\<not> (400 \<le> status_code r \<and> status_code r < 600))"

text \<open>\<^verbatim>\<open>supabase_fetch(method, module_id, params, json_data)\<close>.\<close>

definition supabase_fetch ::
  "'w remote \<Rightarrow> config \<Rightarrow> http_method \<Rightarrow> string \<Rightarrow> (string \<times> string) list \<Rightarrow> json option
     \<Rightarrow> 'w \<Rightarrow> (exn + json) \<times> 'w" where
  "supabase_fetch remote cfg method module_id params json_data w =
     (case map_of cfg module_id of
        None \<Rightarrow> (Inl (ValueError module_id), w)
      | Some table_name \<Rightarrow>
          if table_name = [] then (Inl (ValueError module_id), w)
          else
            (case remote \<lparr>req_method = method, req_table = table_name,
                           req_params = params, req_json = json_data\<rparr> w of
               (resp, w') \<Rightarrow>
                 if \<not> ok resp then
                   (Inl (SupabaseApiError (status_code resp)
                           (if resp_text resp \<noteq> [] then resp_text resp else resp_reason resp)), w')
                 else
                   (case resp_json resp of
                      Some j \<Rightarrow> (Inr j, w')
                    | None \<Rightarrow> (Inr (JList []), w'))))"

text \<open>
  \<^verbatim>\<open>transform_from_supabase(records)\<close>: the loop over the records with the list
  \<^verbatim>\<open>cards\<close> it appends to. \<^verbatim>\<open>{**rec['data'], 'cardid': rec['cardid']}\<close> raises
  TypeError when \<^verbatim>\<open>rec['data']\<close> is not a dict; on a dict it overwrites the entry of
  \<^verbatim>\<open>cardid\<close> in place or appends it.
\<close>

fun transform_loop :: "json list \<Rightarrow> json list \<Rightarrow> exn + json list" where
  "transform_loop [] cards = Inr cards"
| "transform_loop (JDict r # records) cards =
     (case (map_of r ''cardid'', map_of r ''data'') of
        (Some c, Some (JDict d)) \<Rightarrow>
          transform_loop records (cards @ [JDict (AList.update ''cardid'' c d)])
      | (Some c, Some _) \<Rightarrow> Inl TypeError
      | _ \<Rightarrow> transform_loop records cards)"
| "transform_loop (_ # records) cards = transform_loop records cards"

definition transform_from_supabase :: "json \<Rightarrow> exn + json list" where
  "transform_from_supabase records =
     (case py_iter records of
        Inl e \<Rightarrow> Inl e
      | Inr rs \<Rightarrow> transform_loop rs [])"

section \<open>The route handlers\<close>

text \<open>
  A handler returns the body it hands to \<^verbatim>\<open>jsonify\<close> and the status code. The
  bodies of the failure branches carry \<^verbatim>\<open>str(e)\<close> or a fixed message; the model
  keeps the exception itself.
\<close>

datatype reply =
    Json json                 \<comment> \<open>a success body\<close>
  | Error exn                 \<comment> \<open>\<^verbatim>\<open>{'error': str(e)}\<close>\<close>
  | Failure exn               \<comment> \<open>\<^verbatim>\<open>{'success': False, 'error': str(e)}\<close>\<close>
  | NotFound string           \<comment> \<open>\<^verbatim>\<open>update_card\<close>: no card of this id\<close>
  | MustBeArray               \<comment> \<open>\<^verbatim>\<open>import_cards\<close>: the import data must be a JSON array\<close>
  | ResetDone string nat      \<comment> \<open>\<^verbatim>\<open>{'success': True, 'message': ..., 'count': count}\<close>\<close>
  | ResetFailed exn
  | ImportFailed exn

text \<open>\<^verbatim>\<open>GET /api/<module_id>/cards\<close>.\<close>

definition get_all_cards :: "'w remote \<Rightarrow> config \<Rightarrow> string \<Rightarrow> 'w \<Rightarrow> (reply \<times> nat) \<times> 'w" where
  "get_all_cards remote cfg module_id w =
     (case supabase_fetch remote cfg GET module_id [(''select'', ''cardid,data'')] None w of
        (Inl e, w') \<Rightarrow> ((Error e, 500), w')
      | (Inr supabase_records, w') \<Rightarrow>
          (case transform_from_supabase supabase_records of
             Inl e \<Rightarrow> ((Error e, 500), w')
           | Inr cards \<Rightarrow> ((Json (JList cards), 200), w')))"

text \<open>\<^verbatim>\<open>DELETE /api/<module_id>/cards/<card_id>\<close>.\<close>

definition delete_card :: "'w remote \<Rightarrow> config \<Rightarrow> string \<Rightarrow> string \<Rightarrow> 'w \<Rightarrow> (reply \<times> nat) \<times> 'w" where
  "delete_card remote cfg module_id card_id w =
     (case supabase_fetch remote cfg DELETE module_id [(''cardid'', ''eq.'' @ card_id)] None w of
        (Inl e, w') \<Rightarrow> ((Failure e, 500), w')
      | (Inr _, w') \<Rightarrow> ((Json (JDict [(''success'', JBool True)]), 200), w'))"


subsection \<open>Create: the helpers of \<^verbatim>\<open>add_card\<close>\<close>

text \<open>\<^verbatim>\<open>s.startswith(p)\<close>.\<close>

definition startswith :: "string \<Rightarrow> string \<Rightarrow> bool" where
  "startswith s p = (take (length p) s = p)"

text \<open>\<^verbatim>\<open>s.split(sep)\<close> for a separator of one character: never the empty list.\<close>

fun py_split :: "char \<Rightarrow> string \<Rightarrow> string list" where
  "py_split sep [] = [[]]"
| "py_split sep (c # cs) =
     (if c = sep then [] # py_split sep cs
      else (case py_split sep cs of
              [] \<Rightarrow> [[c]]
            | seg # segs \<Rightarrow> (c # seg) # segs))"

text \<open>
  The interpreter bounds the number of digits in a conversion between int and str:
  \<^verbatim>\<open>sys.get_int_max_str_digits()\<close>, 4300 unless set otherwise, 0 for no bound, and no
  bound at all in interpreters older than the setting. It is a parameter of the model,
  \<open>lim\<close>. A conversion of more than 640 digits that exceeds a positive bound raises
  ValueError.
\<close>

definition digits_exceed :: "nat \<Rightarrow> nat \<Rightarrow> bool" where
  "digits_exceed lim n = (640 < n \<and> 0 < lim \<and> lim < n)"

text \<open>
  \<^verbatim>\<open>int(s)\<close> on a str, in base ten: white space around the numeral is dropped, one
  sign may lead, and at least one digit must follow and nothing else (the segment
  after the last underscore holds no underscore). \<open>None\<close> is ValueError, also for a
  numeral beyond the bound of digits. The white space that \<^verbatim>\<open>int\<close> drops is, below
  256: tab to carriage return (9 to 13), the blank (32), and the two that are not
  7-bit, next line (0x85) and the no-break space (0xA0). The separators 0x1C to 0x1F
  are not dropped. The only decimal digits below 256 are \<^verbatim>\<open>0\<close> to \<^verbatim>\<open>9\<close>.
\<close>

definition is_space :: "char \<Rightarrow> bool" where
  "is_space c =
     (let n = (of_char c :: nat) in (9 \<le> n \<and> n \<le> 13) \<or> n = 32 \<or> n = 133 \<or> n = 160)"

definition is_digit :: "char \<Rightarrow> bool" where
  "is_digit c = (let n = (of_char c :: nat) in 48 \<le> n \<and> n \<le> 57)"

definition digit_val :: "char \<Rightarrow> nat" where
  "digit_val c = of_char c - 48"

definition decimal :: "string \<Rightarrow> nat" where
  "decimal ds = foldl (\<lambda>a c. 10 * a + digit_val c) 0 ds"

definition py_strip :: "string \<Rightarrow> string" where
  "py_strip s = rev (dropWhile is_space (rev (dropWhile is_space s)))"

definition py_int :: "nat \<Rightarrow> string \<Rightarrow> int option" where
  "py_int lim s =
     (let t = py_strip s;
          neg = (t \<noteq> [] \<and> hd t = CHR ''-'');
          ds = (if t \<noteq> [] \<and> (hd t = CHR ''-'' \<or> hd t = CHR ''+'') then tl t else t)
      in if ds \<noteq> [] \<and> list_all is_digit ds \<and> \<not> digits_exceed lim (length ds)
         then Some (if neg then - int (decimal ds) else int (decimal ds))
         else None)"

text \<open>
  \<^verbatim>\<open>str(n)\<close> of an int, as the f-string prints it; it raises on an int of more
  digits than the bound.
\<close>

fun str_nat :: "nat \<Rightarrow> string" where
  "str_nat n =
     (if n < 10 then [char_of (48 + n)]
      else str_nat (n div 10) @ [char_of (48 + n mod 10)])"

declare str_nat.simps [simp del]

definition str_int :: "int \<Rightarrow> string" where
  "str_int i = (if i < 0 then CHR ''-'' # str_nat (nat (- i)) else str_nat (nat i))"

definition py_str :: "nat \<Rightarrow> int \<Rightarrow> exn + string" where
  "py_str lim i =
     (if digits_exceed lim (length (str_nat (nat \<bar>i\<bar>))) then Inl DigitLimit
      else Inr (str_int i))"

text \<open>
  The loop of \<^verbatim>\<open>add_card\<close> over the existing cards (lines 153 to 162), with the
  running \<^verbatim>\<open>max_number\<close>. \<^verbatim>\<open>card.get\<close> raises AttributeError on a card that is no
  dict, \<^verbatim>\<open>startswith\<close> on an id that is no str.
\<close>

fun scan_max :: "nat \<Rightarrow> string \<Rightarrow> json list \<Rightarrow> int \<Rightarrow> exn + int" where
  "scan_max lim module_id [] max_number = Inr max_number"
| "scan_max lim module_id (JDict crd # cards) max_number =
     (case dict_get crd ''cardid'' (JStr []) of
        JStr card_id_str \<Rightarrow>
          if startswith card_id_str (module_id @ ''_card_'') then
            (case py_int lim (last (py_split CHR ''_'' card_id_str)) of
               Some number \<Rightarrow> scan_max lim module_id cards (max max_number number)
             | None \<Rightarrow> scan_max lim module_id cards max_number)
          else scan_max lim module_id cards max_number
      | _ \<Rightarrow> Inl AttributeError)"
| "scan_max lim module_id (_ # cards) max_number = Inl AttributeError"

text \<open>
  Lines 177 to 180 of \<^verbatim>\<open>add_card\<close>: the card of the reply, read from the result of
  the insert. A result that is false, or empty, raises the insertion error;
  \<^verbatim>\<open>{**result[0]['data'], 'cardid': result[0]['cardid']}\<close> raises where an index, a
  key or the mapping is missing.
\<close>

fun inserted_card :: "json \<Rightarrow> exn + json" where
  "inserted_card (JList (JDict r # _)) =
     (case map_of r ''data'' of
        None \<Rightarrow> Inl (KeyError ''data'')
      | Some (JDict d) \<Rightarrow>
          (case map_of r ''cardid'' of
             None \<Rightarrow> Inl (KeyError ''cardid'')
           | Some c \<Rightarrow> Inr (JDict (AList.update ''cardid'' c d)))
      | Some _ \<Rightarrow> Inl TypeError)"
| "inserted_card (JList (_ # _)) = Inl TypeError"
| "inserted_card (JDict (_ # _)) = Inl (KeyError ''0'')"
| "inserted_card (JStr (_ # _)) = Inl TypeError"
| "inserted_card (JInt i) = (if i = 0 then Inl InsertFailed else Inl TypeError)"
| "inserted_card (JBool b) = (if b then Inl TypeError else Inl InsertFailed)"
| "inserted_card _ = Inl InsertFailed"

text \<open>Lines 169 to 185 of \<^verbatim>\<open>add_card\<close>: the insert and the reply, once the id is known.\<close>

definition add_card_insert ::
  "'w remote \<Rightarrow> config \<Rightarrow> string \<Rightarrow> json \<Rightarrow> json \<Rightarrow> 'w \<Rightarrow> (reply \<times> nat) \<times> 'w" where
  "add_card_insert remote cfg module_id card_id new_card_data w =
     (case supabase_fetch remote cfg POST module_id []
             (Some (JDict [(''cardid'', card_id), (''data'', new_card_data)])) w of
        (Inl e, w') \<Rightarrow> ((Failure e, 500), w')
      | (Inr result, w') \<Rightarrow>
          (case inserted_card result of
             Inl e \<Rightarrow> ((Failure e, 500), w')
           | Inr new_card \<Rightarrow>
               ((Json (JDict [(''success'', JBool True), (''card'', new_card)]), 201), w')))"

text \<open>
  \<^verbatim>\<open>POST /api/<module_id>/cards\<close>. The body is \<^verbatim>\<open>request.json\<close>; \<^verbatim>\<open>.get\<close> raises on
  a body that is no dict. An id that is missing or false is synthesised, and written
  into the payload before the payload becomes the \<^verbatim>\<open>data\<close> of the row. The f-string
  of the new id raises when the number has more digits than the bound \<open>lim\<close>.
\<close>

definition add_card ::
  "'w remote \<Rightarrow> config \<Rightarrow> nat \<Rightarrow> string \<Rightarrow> json \<Rightarrow> 'w \<Rightarrow> (reply \<times> nat) \<times> 'w" where
  "add_card remote cfg lim module_id body w =
     (case body of
        JDict new_card_data \<Rightarrow>
          (let card_id = dict_get new_card_data ''cardid'' JNull in
           if \<not> truthy card_id then
             (case supabase_fetch remote cfg GET module_id [(''select'', ''cardid'')] None w of
                (Inl e, w') \<Rightarrow> ((Failure e, 500), w')
              | (Inr existing_cards, w') \<Rightarrow>
                  (case py_iter existing_cards of
                     Inl e \<Rightarrow> ((Failure e, 500), w')
                   | Inr cards \<Rightarrow>
                       (case scan_max lim module_id cards 0 of
                          Inl e \<Rightarrow> ((Failure e, 500), w')
                        | Inr max_number \<Rightarrow>
                            (let next_number = max_number + 1 in
                             case py_str lim next_number of
                               Inl e \<Rightarrow> ((Failure e, 500), w')
                             | Inr number_str \<Rightarrow>
                                 (let card_id = JStr (module_id @ ''_card_'' @ number_str)
                                  in add_card_insert remote cfg module_id card_id
                                       (JDict (AList.update ''cardid'' card_id new_card_data)) w')))))
           else add_card_insert remote cfg module_id card_id (JDict new_card_data) w)
      | _ \<Rightarrow> ((Failure AttributeError, 500), w))"

subsection \<open>Update\<close>

text \<open>
  \<^verbatim>\<open>PUT /api/<module_id>/cards/<card_id>\<close>. \<^verbatim>\<open>updates.pop('cardid', None)\<close> works on a
  dict only: a list raises TypeError (its \<^verbatim>\<open>pop\<close> takes one argument), any other
  body AttributeError.
\<close>

definition update_card ::
  "'w remote \<Rightarrow> config \<Rightarrow> string \<Rightarrow> string \<Rightarrow> json \<Rightarrow> 'w \<Rightarrow> (reply \<times> nat) \<times> 'w" where
  "update_card remote cfg module_id card_id body w =
     (case body of
        JDict updates \<Rightarrow>
          (let data_to_update = JDict [(''data'', JDict (AList.delete ''cardid'' updates))] in
           case supabase_fetch remote cfg PATCH module_id [(''cardid'', ''eq.'' @ card_id)]
                  (Some data_to_update) w of
             (Inl e, w') \<Rightarrow> ((Failure e, 500), w')
           | (Inr result, w') \<Rightarrow>
               if \<not> truthy result then ((NotFound card_id, 404), w')
               else
                 (case transform_from_supabase result of
                    Inl e \<Rightarrow> ((Failure e, 500), w')
                  | Inr [] \<Rightarrow> ((Failure IndexError, 500), w')
                  | Inr (updated_card # _) \<Rightarrow>
                      ((Json (JDict [(''success'', JBool True), (''card'', updated_card)]), 200), w')))
      | JList _ \<Rightarrow> ((Failure TypeError, 500), w)
      | _ \<Rightarrow> ((Failure AttributeError, 500), w))"


subsection \<open>Reset, bulk import and seeding\<close>

text \<open>
  The rows that reset, import and seeding build, each with the same expression
  \<^verbatim>\<open>{'cardid': card.get('cardid'), 'data': card}\<close> over the cards: the whole card
  becomes the \<^verbatim>\<open>data\<close> of its row. \<^verbatim>\<open>card.get\<close> raises on a card that is no dict.
\<close>

fun rows_to_insert :: "json list \<Rightarrow> exn + json list" where
  "rows_to_insert [] = Inr []"
| "rows_to_insert (JDict crd # cards) =
     (case rows_to_insert cards of
        Inl e \<Rightarrow> Inl e
      | Inr rows \<Rightarrow>
          Inr (JDict [(''cardid'', dict_get crd ''cardid'' JNull), (''data'', JDict crd)] # rows))"
| "rows_to_insert (_ # cards) = Inl AttributeError"

text \<open>
  The fixture files are read only: \<^verbatim>\<open>open\<close> and \<^verbatim>\<open>json.load\<close> on a file name give
  the parsed JSON or raise (FileNotFoundError, JSONDecodeError).
\<close>

type_synonym files = "string \<Rightarrow> exn + json"

text \<open>
  \<^verbatim>\<open>POST /api/<module_id>/reset\<close>. The bulk insert goes through \<^verbatim>\<open>requests.post\<close>
  and \<^verbatim>\<open>raise_for_status\<close>, not through \<^verbatim>\<open>supabase_fetch\<close>; it is skipped when there
  is no row to insert. The count of the reply is \<^verbatim>\<open>len(initial_data)\<close>, the number of
  elements the loop has run over.
\<close>

definition reset_cards ::
  "'w remote \<Rightarrow> config \<Rightarrow> files \<Rightarrow> string \<Rightarrow> 'w \<Rightarrow> (reply \<times> nat) \<times> 'w" where
  "reset_cards remote cfg fs module_id w =
     (case supabase_fetch remote cfg DELETE module_id [(''cardid'', ''not.is.null'')] None w of
        (Inl e, w1) \<Rightarrow> ((ResetFailed e, 500), w1)
      | (Inr _, w1) \<Rightarrow>
          (case fs (module_id @ ''_cards.json'') of
             Inl e \<Rightarrow> ((ResetFailed e, 500), w1)
           | Inr initial_data \<Rightarrow>
               (case py_iter initial_data of
                  Inl e \<Rightarrow> ((ResetFailed e, 500), w1)
                | Inr cards \<Rightarrow>
                    (case rows_to_insert cards of
                       Inl e \<Rightarrow> ((ResetFailed e, 500), w1)
                     | Inr data_to_insert \<Rightarrow>
                         if data_to_insert \<noteq> [] then
                           (case map_of cfg module_id of
                              None \<Rightarrow> ((ResetFailed (KeyError module_id), 500), w1)
                            | Some table_name \<Rightarrow>
                                (case remote \<lparr>req_method = POST, req_table = table_name,
                                               req_params = [(''on_conflict'', ''cardid'')],
                                               req_json = Some (JList data_to_insert)\<rparr> w1 of
                                   (resp, w2) \<Rightarrow>
                                     if \<not> ok resp then
                                       ((ResetFailed (HTTPError (status_code resp)), 500), w2)
                                     else ((ResetDone module_id (length cards), 200), w2)))
                         else ((ResetDone module_id (length cards), 200), w1)))))"

text \<open>
  \<^verbatim>\<open>POST /api/<module_id>/import\<close>. The cards are the entry \<^verbatim>\<open>cards\<close> of the body;
  \<^verbatim>\<open>data.get\<close> raises on a body that is no dict.
\<close>

definition import_cards :: "'w remote \<Rightarrow> config \<Rightarrow> string \<Rightarrow> json \<Rightarrow> 'w \<Rightarrow> (reply \<times> nat) \<times> 'w" where
  "import_cards remote cfg module_id body w =
     (case body of
        JDict data \<Rightarrow>
          (case dict_get data ''cards'' JNull of
             JList cards_to_import \<Rightarrow>
               (case supabase_fetch remote cfg DELETE module_id
                       [(''cardid'', ''not.is.null'')] None w of
                  (Inl e, w1) \<Rightarrow> ((ImportFailed e, 500), w1)
                | (Inr _, w1) \<Rightarrow>
                    (case rows_to_insert cards_to_import of
                       Inl e \<Rightarrow> ((ImportFailed e, 500), w1)
                     | Inr data_to_insert \<Rightarrow>
                         if data_to_insert \<noteq> [] then
                           (case map_of cfg module_id of
                              None \<Rightarrow> ((ImportFailed (KeyError module_id), 500), w1)
                            | Some table_name \<Rightarrow>
                                (case remote \<lparr>req_method = POST, req_table = table_name,
                                               req_params = [(''on_conflict'', ''cardid'')],
                                               req_json = Some (JList data_to_insert)\<rparr> w1 of
                                   (resp, w2) \<Rightarrow>
                                     if \<not> ok resp then
                                       ((ImportFailed (HTTPError (status_code resp)), 500), w2)
                                     else
                                       ((Json (JDict [(''success'', JBool True),
                                            (''count'', JInt (int (length cards_to_import)))]), 200),
                                        w2)))
                         else
                           ((Json (JDict [(''success'', JBool True),
                                (''count'', JInt (int (length cards_to_import)))]), 200), w1)))
           | _ \<Rightarrow> ((MustBeArray, 400), w))
      | _ \<Rightarrow> ((ImportFailed AttributeError, 500), w))"

text \<open>
  \<^verbatim>\<open>initialize_data(module_id)\<close>: every exception is caught and printed, so the
  function only changes the remote. It asks for one row; a table that has one, or
  a check that fails, ends it.
\<close>

definition initialize_data :: "'w remote \<Rightarrow> config \<Rightarrow> files \<Rightarrow> string \<Rightarrow> 'w \<Rightarrow> 'w" where
  "initialize_data remote cfg fs module_id w =
     (case map_of cfg module_id of
        None \<Rightarrow> w
      | Some table_name \<Rightarrow>
          (case remote \<lparr>req_method = GET, req_table = table_name,
                         req_params = [(''select'', ''cardid''), (''limit'', ''1'')],
                         req_json = None\<rparr> w of
             (check_response, w1) \<Rightarrow>
               if \<not> ok check_response then w1
               else
                 (case resp_json check_response of
                    None \<Rightarrow> w1
                  | Some j \<Rightarrow>
                      (case py_len j of
                         Inl e \<Rightarrow> w1
                       | Inr n \<Rightarrow>
                           if n > 0 then w1
                           else
                             (case fs (module_id @ ''_cards.json'') of
                                Inl e \<Rightarrow> w1
                              | Inr initial_data \<Rightarrow>
                                  (case py_iter initial_data of
                                     Inl e \<Rightarrow> w1
                                   | Inr cards \<Rightarrow>
                                       (case rows_to_insert cards of
                                          Inl e \<Rightarrow> w1
                                        | Inr data_to_insert \<Rightarrow>
                                            if data_to_insert \<noteq> [] then
                                              snd (remote \<lparr>req_method = POST, req_table = table_name,
                                                     req_params = [(''on_conflict'', ''cardid'')],
                                                     req_json = Some (JList data_to_insert)\<rparr> w1)
                                            else w1)))))))"

text \<open>
  \<^verbatim>\<open>check_initial_data\<close>, the hook before every request: the flag
  \<^verbatim>\<open>app.initial_data_checked\<close> lets the seeding run once in the life of the process.
\<close>

definition check_initial_data :: "'w remote \<Rightarrow> config \<Rightarrow> files \<Rightarrow> bool \<times> 'w \<Rightarrow> bool \<times> 'w" where
  "check_initial_data remote cfg fs st =
     (case st of
        (initial_data_checked, w) \<Rightarrow>
          if \<not> initial_data_checked then
            (True, initialize_data remote cfg fs ''mod2'' (initialize_data remote cfg fs ''mod1'' w))
          else (initial_data_checked, w))"

section \<open>Observing the requests, and a reference store\<close>

text \<open>
  A remote that also records every request it receives, in order. What an operation
  sends is read from the record.
\<close>

definition logged :: "'w remote \<Rightarrow> (request list \<times> 'w) remote" where
  "logged remote req lw =
     (case lw of
        (log, w) \<Rightarrow> (case remote req w of (resp, w') \<Rightarrow> (resp, (log @ [req], w'))))"

text \<open>
  Modelled from the spec: the remote store is an external service and no code of it
  is in the repository. The model follows the contract of the spec (section 6, and the
  data model of section 3): a table is a sequence of rows, each a \<^verbatim>\<open>cardid\<close>, a
  string and the key of the table, and a \<^verbatim>\<open>data\<close> value; GET returns the rows with
  the selected columns; PATCH and DELETE act on the rows that the filter on
  \<^verbatim>\<open>cardid\<close> matches, PATCH writing the columns named in its body; POST inserts one
  row or an array of rows, with \<^verbatim>\<open>on_conflict=cardid\<close> replacing the row of the same
  key, and refuses a clash of keys without it; the rows written or removed are
  returned.
\<close>

type_synonym row = "string \<times> json"
type_synonym store = "string \<Rightarrow> row list option"

definition row_json :: "row \<Rightarrow> json" where
  "row_json r = JDict [(''cardid'', JStr (fst r)), (''data'', snd r)]"

definition select_row :: "(string \<times> string) list \<Rightarrow> row \<Rightarrow> json" where
  "select_row params r =
     (if map_of params ''select'' = Some ''cardid'' then JDict [(''cardid'', JStr (fst r))]
      else row_json r)"

definition limit_rows :: "(string \<times> string) list \<Rightarrow> row list \<Rightarrow> row list" where
  "limit_rows params rows =
     (case map_of params ''limit'' of
        None \<Rightarrow> rows
      | Some l \<Rightarrow> if l \<noteq> [] \<and> list_all is_digit l then take (decimal l) rows else rows)"

definition matches :: "(string \<times> string) list \<Rightarrow> row \<Rightarrow> bool" where
  "matches params r =
     (case map_of params ''cardid'' of
        None \<Rightarrow> True
      | Some f \<Rightarrow>
          if f = ''not.is.null'' then True
          else if take 3 f = ''eq.'' then fst r = drop 3 f
          else False)"

fun parse_row :: "json \<Rightarrow> row option" where
  "parse_row (JDict r) =
     (case (map_of r ''cardid'', map_of r ''data'') of
        (Some (JStr c), Some d) \<Rightarrow> Some (c, d)
      | _ \<Rightarrow> None)"
| "parse_row _ = None"

fun parse_rows :: "json list \<Rightarrow> row list option" where
  "parse_rows [] = Some []"
| "parse_rows (j # js) =
     (case (parse_row j, parse_rows js) of
        (Some r, Some rs) \<Rightarrow> Some (r # rs)
      | _ \<Rightarrow> None)"

definition posted_rows :: "json \<Rightarrow> row list option" where
  "posted_rows j = (case j of JList js \<Rightarrow> parse_rows js | _ \<Rightarrow> parse_rows [j])"

definition upsert :: "row \<Rightarrow> row list \<Rightarrow> row list" where
  "upsert r rows = AList.update (fst r) (snd r) rows"

definition patch_row :: "(string \<times> json) list \<Rightarrow> row \<Rightarrow> row" where
  "patch_row cols r =
     ((case map_of cols ''cardid'' of Some (JStr c) \<Rightarrow> c | _ \<Rightarrow> fst r),
      dict_get cols ''data'' (snd r))"

definition reply_rows :: "nat \<Rightarrow> row list \<Rightarrow> response" where
  "reply_rows code rows =
     \<lparr>status_code = code, resp_text = [], resp_reason = ''OK'',
      resp_json = Some (JList (map row_json rows))\<rparr>"

definition refuse :: "nat \<Rightarrow> response" where
  "refuse code = \<lparr>status_code = code, resp_text = [], resp_reason = ''Error'', resp_json = None\<rparr>"

definition store_remote :: "store remote" where
  "store_remote req s =
     (case s (req_table req) of
        None \<Rightarrow> (refuse 404, s)
      | Some rows \<Rightarrow>
          (case req_method req of
             GET \<Rightarrow>
               (\<lparr>status_code = 200, resp_text = [], resp_reason = ''OK'',
                 resp_json = Some (JList (map (select_row (req_params req))
                                            (limit_rows (req_params req) rows)))\<rparr>, s)
           | DELETE \<Rightarrow>
               (reply_rows 200 (filter (matches (req_params req)) rows),
                s(req_table req \<mapsto> filter (\<lambda>r. \<not> matches (req_params req) r) rows))
           | PATCH \<Rightarrow>
               (case req_json req of
                  Some (JDict cols) \<Rightarrow>
                    (reply_rows 200 (map (patch_row cols) (filter (matches (req_params req)) rows)),
                     s(req_table req \<mapsto>
                         map (\<lambda>r. if matches (req_params req) r then patch_row cols r else r) rows))
                | _ \<Rightarrow> (refuse 400, s))
           | POST \<Rightarrow>
               (case req_json req of
                  None \<Rightarrow> (refuse 400, s)
                | Some j \<Rightarrow>
                    (case posted_rows j of
                       None \<Rightarrow> (refuse 400, s)
                     | Some new \<Rightarrow>
                         if map_of (req_params req) ''on_conflict'' = Some ''cardid'' then
                           (reply_rows 201 new, s(req_table req \<mapsto> fold upsert new rows))
                         else if distinct (map fst (rows @ new)) then
                           (reply_rows 201 new, s(req_table req \<mapsto> rows @ new))
                         else (refuse 409, s)))))"

section \<open>The vocabulary of the claims\<close>

text \<open>
  The rows that \<^verbatim>\<open>transform_from_supabase\<close> keeps are the dicts with a key
  \<^verbatim>\<open>cardid\<close> and a key \<^verbatim>\<open>data\<close>; the reshaped form of such a row is
  \<^verbatim>\<open>{**data, 'cardid': cardid}\<close>, which exists when \<^verbatim>\<open>data\<close> is a dict.
\<close>

definition has_keys :: "json \<Rightarrow> bool" where
  "has_keys j = (case j of JDict r \<Rightarrow> map_of r ''cardid'' \<noteq> None \<and> map_of r ''data'' \<noteq> None | _ \<Rightarrow> False)"

definition data_is_dict :: "json \<Rightarrow> bool" where
  "data_is_dict j =
     (case j of JDict r \<Rightarrow> (case map_of r ''data'' of Some (JDict d) \<Rightarrow> True | _ \<Rightarrow> False) | _ \<Rightarrow> False)"

definition reshape :: "json \<Rightarrow> json" where
  "reshape j =
     (case j of
        JDict r \<Rightarrow>
          (case (map_of r ''cardid'', map_of r ''data'') of
             (Some c, Some (JDict d)) \<Rightarrow> JDict (AList.update ''cardid'' c d)
           | _ \<Rightarrow> JNull)
      | _ \<Rightarrow> JNull)"

text \<open>
  What one existing id gives to the scan of \<^verbatim>\<open>add_card\<close>: the integer that
  \<^verbatim>\<open>int\<close> reads after the last underscore, under the bound \<open>lim\<close> of digits, when
  the id starts with the prefix of the module. The rows of the scan are the ids, each
  under \<^verbatim>\<open>cardid\<close>.
\<close>

definition card_number :: "nat \<Rightarrow> string \<Rightarrow> string \<Rightarrow> int option" where
  "card_number lim module_id i =
     (if startswith i (module_id @ ''_card_'') then py_int lim (last (py_split CHR ''_'' i))
      else None)"

definition id_rows :: "string list \<Rightarrow> json list" where
  "id_rows ids = map (\<lambda>i. JDict [(''cardid'', JStr i)]) ids"

text \<open>
  The same in the words of the specification: an id matches the pattern
  \<^verbatim>\<open>{module}_card_{N}\<close> when it is the prefix followed by a decimal numeral \<open>N\<close>,
  and the new id has the suffix one above the greatest such \<open>N\<close>, or 1. A plain id is
  one of the pattern whose numeral is within the bound of digits.
\<close>

definition spec_card_number :: "string \<Rightarrow> string \<Rightarrow> nat option" where
  "spec_card_number module_id i =
     (let n = drop (length (module_id @ ''_card_'')) i
      in if startswith i (module_id @ ''_card_'') \<and> n \<noteq> [] \<and> list_all is_digit n
         then Some (decimal n) else None)"

definition plain_id :: "nat \<Rightarrow> string \<Rightarrow> string \<Rightarrow> bool" where
  "plain_id lim module_id i =
     (spec_card_number module_id i \<noteq> None
      \<and> \<not> digits_exceed lim (length (drop (length (module_id @ ''_card_'')) i)))"

definition spec_next_id :: "string \<Rightarrow> string list \<Rightarrow> string" where
  "spec_next_id module_id ids =
     module_id @ ''_card_'' @ str_nat (Max (set (0 # List.map_filter (spec_card_number module_id) ids)) + 1)"

text \<open>
  The rows an operation sends to the store are the bodies of its POST and PATCH
  requests. In a row, \<^verbatim>\<open>cardid\<close> may occur as a key inside \<^verbatim>\<open>data\<close>; a row that
  carries a whole card has the card as its \<^verbatim>\<open>data\<close> and, as its \<^verbatim>\<open>cardid\<close>, what
  the card holds under that key.
\<close>

definition sent_rows :: "request list \<Rightarrow> json list" where
  "sent_rows log =
     concat (map (\<lambda>req. if req_method req = POST \<or> req_method req = PATCH
                         then (case req_json req of
                                 None \<Rightarrow> []
                               | Some (JList rows) \<Rightarrow> rows
                               | Some row \<Rightarrow> [row])
                         else []) log)"

definition id_in_data :: "json \<Rightarrow> bool" where
  "id_in_data row =
     (case row of
        JDict r \<Rightarrow> (case map_of r ''data'' of Some (JDict d) \<Rightarrow> map_of d ''cardid'' \<noteq> None | _ \<Rightarrow> False)
      | _ \<Rightarrow> False)"

definition whole_card_row :: "json \<Rightarrow> bool" where
  "whole_card_row row =
     (case row of
        JDict r \<Rightarrow>
          (case map_of r ''data'' of
             Some (JDict c) \<Rightarrow> r = [(''cardid'', dict_get c ''cardid'' JNull), (''data'', JDict c)]
           | _ \<Rightarrow> False)
      | _ \<Rightarrow> False)"

definition fetch_reqs ::
  "config \<Rightarrow> http_method \<Rightarrow> string \<Rightarrow> (string \<times> string) list \<Rightarrow> json option \<Rightarrow> request list" where
  "fetch_reqs cfg method module_id params json_data =
     (case map_of cfg module_id of
        None \<Rightarrow> []
      | Some table_name \<Rightarrow>
          if table_name = [] then []
          else [\<lparr>req_method = method, req_table = table_name,
                 req_params = params, req_json = json_data\<rparr>])"

text \<open>
  A card object of a fixture file is a JSON object that carries its id, a string,
  under \<^verbatim>\<open>cardid\<close>.
\<close>

definition card_object :: "json \<Rightarrow> bool" where
  "card_object j =
     (case j of
        JDict c \<Rightarrow> (case map_of c ''cardid'' of Some (JStr i) \<Rightarrow> True | _ \<Rightarrow> False)
      | _ \<Rightarrow> False)"

definition card_id_of :: "json \<Rightarrow> string" where
  "card_id_of j =
     (case j of
        JDict c \<Rightarrow> (case map_of c ''cardid'' of Some (JStr i) \<Rightarrow> i | _ \<Rightarrow> [])
      | _ \<Rightarrow> [])"

text \<open>
  A body of Bulk Import supplies its cards when it is a JSON object with an array
  under \<^verbatim>\<open>cards\<close>.
\<close>

definition is_object :: "json \<Rightarrow> bool" where
  "is_object j = (case j of JDict d \<Rightarrow> True | _ \<Rightarrow> False)"

definition supplies_cards :: "json \<Rightarrow> bool" where
  "supplies_cards body =
     (case body of
        JDict data \<Rightarrow> (case dict_get data ''cards'' JNull of JList cards \<Rightarrow> True | _ \<Rightarrow> False)
      | _ \<Rightarrow> False)"

text \<open>
  Concrete data: two modules; a store with two cards in the table of the first and
  none in the second; a store whose only id has a segment between the prefix and the
  number; a store whose only row has no mapping as its data; a fixture file of two
  cards for the first module and one of two cards with the same id for the second;
  the reference store answering every write with an empty body, as a store does that
  is not asked for the rows it wrote; four records of which one is a row; a remote
  that answers every request with status 200 and a fixed body, or none.
\<close>

definition demo_cfg :: config where
  "demo_cfg = [(''mod1'', ''cards_mod1''), (''mod2'', ''cards_mod2'')]"

definition demo_store :: store where
  "demo_store =
     (\<lambda>t. None)(''cards_mod1'' \<mapsto> [(''mod1_card_1'', JDict [(''front'', JStr ''a'')]),
                                    (''mod1_card_3'', JDict [(''front'', JStr ''c'')])],
                 ''cards_mod2'' \<mapsto> [])"

definition odd_store :: store where
  "odd_store = (\<lambda>t. None)(''cards_mod1'' \<mapsto> [(''mod1_card_x_7'', JDict [])])"

definition null_store :: store where
  "null_store = (\<lambda>t. None)(''cards_mod1'' \<mapsto> [(''a'', JNull)])"

definition demo_cards :: "json list" where
  "demo_cards =
     [JDict [(''cardid'', JStr ''mod1_card_1''), (''front'', JStr ''one'')],
      JDict [(''front'', JStr ''two''), (''cardid'', JStr ''mod1_card_2'')]]"

definition dup_cards :: "json list" where
  "dup_cards =
     [JDict [(''cardid'', JStr ''c1''), (''front'', JStr ''one'')],
      JDict [(''cardid'', JStr ''c1''), (''front'', JStr ''two'')]]"

definition demo_files :: files where
  "demo_files name =
     (if name = ''mod1_cards.json'' then Inr (JList demo_cards)
      else if name = ''mod2_cards.json'' then Inr (JList dup_cards)
      else Inl (FileNotFoundError name))"

definition minimal_remote :: "store remote" where
  "minimal_remote req s =
     (case store_remote req s of
        (resp, s') \<Rightarrow>
          if req_method req = GET then (resp, s') else (resp\<lparr>resp_json := None\<rparr>, s'))"

definition mixed_records :: "json list" where
  "mixed_records =
     [JInt 5,
      JDict [(''cardid'', JStr ''a''), (''data'', JDict [(''front'', JStr ''q'')])],
      JDict [(''cardid'', JStr ''b'')],
      JStr ''row'']"

definition fixed_remote :: "json option \<Rightarrow> unit remote" where
  "fixed_remote body req w =
     (\<lparr>status_code = 200, resp_text = [], resp_reason = ''OK'', resp_json = body\<rparr>, w)"

section \<open>Lemmas on the shared parts\<close>

lemma supabase_fetch_ok:
  assumes "map_of cfg module_id = Some table_name" "table_name \<noteq> []"
    and "remote \<lparr>req_method = method, req_table = table_name, req_params = params, req_json = body\<rparr> w = (resp, w')"
    and "ok resp"
  shows "supabase_fetch remote cfg method module_id params body w =
           (Inr (case resp_json resp of Some j \<Rightarrow> j | None \<Rightarrow> JList []), w')"
  using assms by (simp add: supabase_fetch_def split: option.splits)

lemma fetch_log:
  "fst (snd (supabase_fetch (logged remote) cfg meth module_id ps b (log, w)))
     = log @ fetch_reqs cfg meth module_id ps b"
proof (cases "map_of cfg module_id")
  case None
  then show ?thesis by (simp add: supabase_fetch_def fetch_reqs_def)
next
  case (Some t)
  then show ?thesis
    by (cases "remote \<lparr>req_method = meth, req_table = t, req_params = ps, req_json = b\<rparr> w")
       (simp add: supabase_fetch_def fetch_reqs_def logged_def split: option.splits)
qed

lemma fetch_logged:
  assumes "map_of cfg module_id = Some table_name" and "table_name \<noteq> []"
  shows "fst (snd (supabase_fetch (logged remote) cfg meth module_id ps b (log, w))) =
           log @ [\<lparr>req_method = meth, req_table = table_name, req_params = ps, req_json = b\<rparr>]"
  using assms
  by (cases "remote \<lparr>req_method = meth, req_table = table_name, req_params = ps, req_json = b\<rparr> w")
     (simp add: supabase_fetch_def logged_def split: option.splits)

lemma logged_fst:
  "fst (snd (logged remote req (log, w))) = log @ [req]"
  by (cases "remote req w") (simp add: logged_def)

lemma transform_loop_acc:
  "\<forall>j\<in>set records. has_keys j \<longrightarrow> data_is_dict j \<Longrightarrow>
   transform_loop records cards = Inr (cards @ map reshape (filter has_keys records))"
proof (induction records cards rule: transform_loop.induct)
  case (1 cards)
  then show ?case by simp
next
  case (2 r records cards)
  then show ?case
    by (auto simp: has_keys_def data_is_dict_def reshape_def split: option.splits json.splits)
qed (simp_all add: has_keys_def)

lemma sent_rows_append [simp]: "sent_rows (xs @ ys) = sent_rows xs @ sent_rows ys"
  by (simp add: sent_rows_def)

lemma sent_rows_Nil [simp]: "sent_rows [] = []"
  by (simp add: sent_rows_def)

lemma sent_rows_read [simp]:
  "sent_rows (fetch_reqs cfg GET module_id ps b) = []"
  "sent_rows (fetch_reqs cfg DELETE module_id ps b) = []"
  by (cases "map_of cfg module_id"; simp add: sent_rows_def fetch_reqs_def)+

lemma sent_rows_write:
  "set (sent_rows (fetch_reqs cfg POST module_id ps (Some (JDict r)))) \<subseteq> {JDict r}"
  "set (sent_rows (fetch_reqs cfg PATCH module_id ps (Some (JDict r)))) \<subseteq> {JDict r}"
  by (cases "map_of cfg module_id"; simp add: sent_rows_def fetch_reqs_def)+

lemma sent_rows_bulk:
  "sent_rows [\<lparr>req_method = POST, req_table = t, req_params = ps,
               req_json = Some (JList rows)\<rparr>] = rows"
  by (simp add: sent_rows_def)

lemma rows_whole:
  "rows_to_insert cards = Inr rows \<Longrightarrow> list_all whole_card_row rows"
proof (induction cards arbitrary: rows)
  case Nil
  then show ?case by simp
next
  case (Cons c cards)
  then show ?case
    by (cases c) (auto simp: whole_card_row_def split: sum.splits)
qed

lemma ok_reply_rows [simp]: "ok (reply_rows 200 rows)" "ok (reply_rows 201 rows)"
  by (simp_all add: ok_def reply_rows_def)

lemma scan_max_fold:
  "scan_max lim module_id (id_rows ids) acc = Inr (fold max (List.map_filter (card_number lim module_id) ids) acc)"
proof (induction ids arbitrary: acc)
  case Nil
  then show ?case by (simp add: id_rows_def map_filter_simps)
next
  case (Cons i ids)
  then show ?case
    by (simp add: id_rows_def map_filter_simps card_number_def dict_get_def max.commute
             split: option.splits)
qed

lemma scan_max_Max:
  "scan_max lim module_id (id_rows ids) 0 = Inr (Max (set (0 # List.map_filter (card_number lim module_id) ids)))"
  by (simp only: scan_max_fold Max.set_eq_fold)

lemma next_number_positive: "0 \<le> Max (set (0 # ns :: int list))"
  by (rule Max_ge) simp_all

lemma py_str_within:
  assumes "0 \<le> n" and "\<not> digits_exceed lim (length (str_int n))"
  shows "py_str lim n = Inr (str_int n)"
  using assms by (simp add: py_str_def str_int_def)

lemma add_card_scan:
  assumes "\<not> truthy (dict_get payload ''cardid'' JNull)"
    and "map_of cfg module_id = Some table_name" and "table_name \<noteq> []"
    and "remote \<lparr>req_method = GET, req_table = table_name,
                  req_params = [(''select'', ''cardid'')], req_json = None\<rparr> w = (resp, w')"
    and "ok resp"
    and "(case resp_json resp of Some j \<Rightarrow> j | None \<Rightarrow> JList []) = JList (id_rows ids)"
    and "n = Max (set (0 # List.map_filter (card_number lim module_id) ids)) + 1"
    and "\<not> digits_exceed lim (length (str_int n))"
    and "new_id = module_id @ ''_card_'' @ str_int n"
  shows "add_card remote cfg lim module_id (JDict payload) w =
           add_card_insert remote cfg module_id (JStr new_id)
             (JDict (AList.update ''cardid'' (JStr new_id) payload)) w'"
proof -
  have "0 \<le> n" using assms(7) next_number_positive[of "List.map_filter (card_number lim module_id) ids"]
    by simp
  then have str: "py_str lim n = Inr (str_int n)"
    using assms(8) by (rule py_str_within)
  have scan: "scan_max lim module_id (id_rows ids) 0 = Inr (n - 1)"
    using assms(7) by (simp add: scan_max_Max)
  have get: "supabase_fetch remote cfg GET module_id [(''select'', ''cardid'')] None w
               = (Inr (JList (id_rows ids)), w')"
    using assms(2-6) by (simp add: supabase_fetch_def split: option.splits)
  show ?thesis
    using assms(1,9) get scan str by (simp add: add_card_def Let_def)
qed

section \<open>List\<close>

text \<open>
  Claim C8. For a module that resolves to a table, when the remote answers the GET of
  List with success and the empty array, List replies 200 with the empty array.
\<close>

theorem list_empty_table:
  assumes "map_of cfg module_id = Some table_name" and "table_name \<noteq> []"
    and "remote \<lparr>req_method = GET, req_table = table_name,
                  req_params = [(''select'', ''cardid,data'')], req_json = None\<rparr> w = (resp, w')"
    and "ok resp" and "resp_json resp = Some (JList [])"
  shows "get_all_cards remote cfg module_id w = ((Json (JList []), 200), w')"
  using assms by (simp add: get_all_cards_def supabase_fetch_ok transform_from_supabase_def)

text \<open>The second module of the reference store has an empty table.\<close>

theorem list_empty_table_witness:
  "map_of demo_cfg ''mod2'' = Some ''cards_mod2'' \<and> ''cards_mod2'' \<noteq> []
   \<and> ok (fst (store_remote \<lparr>req_method = GET, req_table = ''cards_mod2'',
                  req_params = [(''select'', ''cardid,data'')], req_json = None\<rparr> demo_store))
   \<and> get_all_cards store_remote demo_cfg ''mod2'' demo_store = ((Json (JList []), 200), demo_store)"
proof -
  let ?resp = "\<lparr>status_code = 200, resp_text = [], resp_reason = ''OK'', resp_json = Some (JList [])\<rparr>"
  have h1: "map_of demo_cfg ''mod2'' = Some ''cards_mod2''" by (simp add: demo_cfg_def)
  have h2: "''cards_mod2'' \<noteq> []" by simp
  have h3: "store_remote \<lparr>req_method = GET, req_table = ''cards_mod2'',
                  req_params = [(''select'', ''cardid,data'')], req_json = None\<rparr> demo_store
            = (?resp, demo_store)"
    by (simp add: store_remote_def demo_store_def limit_rows_def)
  have h4: "ok ?resp" by (simp add: ok_def)
  have h5: "resp_json ?resp = Some (JList [])" by simp
  from list_empty_table[of demo_cfg "''mod2''" "''cards_mod2''" store_remote demo_store ?resp demo_store,
        OF h1 h2 h3 h4 h5] h1 h3 h4
  show ?thesis by simp
qed

text \<open>
  Claim C10, as the code has it. \<^verbatim>\<open>transform_from_supabase\<close> returns, in order, the
  reshaped form of the elements that are dicts with both keys, and drops every other
  element, provided that the \<^verbatim>\<open>data\<close> of each element it keeps is a dict; List then
  replies 200 with these cards. Without the proviso the claim fails: the test of the
  loop does not look at \<^verbatim>\<open>data\<close>, and unpacking a \<^verbatim>\<open>data\<close> that is no mapping raises.
\<close>

theorem transform_keeps_rows:
  assumes "\<forall>j\<in>set records. has_keys j \<longrightarrow> data_is_dict j"
  shows "transform_from_supabase (JList records) = Inr (map reshape (filter has_keys records))
       \<and> (map_of cfg module_id = Some table_name \<and> table_name \<noteq> []
            \<and> remote \<lparr>req_method = GET, req_table = table_name,
                        req_params = [(''select'', ''cardid,data'')], req_json = None\<rparr> w = (resp, w')
            \<and> ok resp \<and> resp_json resp = Some (JList records) \<longrightarrow>
          get_all_cards remote cfg module_id w =
            ((Json (JList (map reshape (filter has_keys records))), 200), w'))"
  using assms
  by (simp add: get_all_cards_def supabase_fetch_ok transform_from_supabase_def transform_loop_acc)

text \<open>Four records, of which one is a row; the others are dropped.\<close>

theorem transform_keeps_rows_witness:
  "transform_from_supabase (JList mixed_records)
     = Inr [JDict [(''front'', JStr ''q''), (''cardid'', JStr ''a'')]]
   \<and> get_all_cards (fixed_remote (Some (JList mixed_records))) demo_cfg ''mod1'' ()
     = ((Json (JList [JDict [(''front'', JStr ''q''), (''cardid'', JStr ''a'')]]), 200), ())"
proof -
  let ?resp = "\<lparr>status_code = 200, resp_text = [], resp_reason = ''OK'',
                resp_json = Some (JList mixed_records)\<rparr>"
  have h: "\<forall>j\<in>set mixed_records. has_keys j \<longrightarrow> data_is_dict j"
    by (simp add: mixed_records_def has_keys_def data_is_dict_def)
  have k: "map reshape (filter has_keys mixed_records)
             = [JDict [(''front'', JStr ''q''), (''cardid'', JStr ''a'')]]"
    by (simp add: mixed_records_def has_keys_def reshape_def)
  have g: "map_of demo_cfg ''mod1'' = Some ''cards_mod1'' \<and> ''cards_mod1'' \<noteq> []
            \<and> fixed_remote (Some (JList mixed_records))
                 \<lparr>req_method = GET, req_table = ''cards_mod1'',
                   req_params = [(''select'', ''cardid,data'')], req_json = None\<rparr> () = (?resp, ())
            \<and> ok ?resp \<and> resp_json ?resp = Some (JList mixed_records)"
    by (simp add: demo_cfg_def fixed_remote_def ok_def)
  from transform_keeps_rows[OF h, of demo_cfg "''mod1''" "''cards_mod1''"
         "fixed_remote (Some (JList mixed_records))" "()" ?resp "()"] g
  have "transform_from_supabase (JList mixed_records) = Inr (map reshape (filter has_keys mixed_records))
      \<and> get_all_cards (fixed_remote (Some (JList mixed_records))) demo_cfg ''mod1'' ()
          = ((Json (JList (map reshape (filter has_keys mixed_records))), 200), ())"
    by blast
  then show ?thesis by (simp only: k) 
qed

text \<open>A row with both keys whose \<^verbatim>\<open>data\<close> is null: the function raises and List fails.\<close>

theorem transform_counterexample:
  "transform_from_supabase (JList [JDict [(''cardid'', JStr ''a''), (''data'', JNull)]]) = Inl TypeError
   \<and> fst (get_all_cards store_remote demo_cfg ''mod1'' null_store) = (Error TypeError, 500)"
  by code_simp

section \<open>Delete\<close>

text \<open>
  Claim C7. For a module that resolves to a table, when the remote answers the DELETE
  with success, Delete replies 200 with \<^verbatim>\<open>{success: true}\<close>, whatever the answer
  holds. The only request it sends is that DELETE: nothing asks whether the card
  exists.
\<close>

theorem delete_reports_success:
  assumes "map_of cfg module_id = Some table_name" and "table_name \<noteq> []"
    and "remote \<lparr>req_method = DELETE, req_table = table_name,
                  req_params = [(''cardid'', ''eq.'' @ card_id)], req_json = None\<rparr> w = (resp, w')"
    and "ok resp"
  shows "delete_card remote cfg module_id card_id w =
           ((Json (JDict [(''success'', JBool True)]), 200), w')
       \<and> delete_card (logged remote) cfg module_id card_id ([], w) =
           ((Json (JDict [(''success'', JBool True)]), 200),
            ([\<lparr>req_method = DELETE, req_table = table_name,
               req_params = [(''cardid'', ''eq.'' @ card_id)], req_json = None\<rparr>], w'))"
  using assms by (simp add: delete_card_def supabase_fetch_ok logged_def)

text \<open>No card of the reference store has the id deleted here.\<close>

theorem delete_reports_success_witness:
  "map_of demo_cfg ''mod2'' = Some ''cards_mod2'' \<and> ''cards_mod2'' \<noteq> []
   \<and> ok (fst (store_remote \<lparr>req_method = DELETE, req_table = ''cards_mod2'',
                  req_params = [(''cardid'', ''eq.'' @ ''mod2_card_9'')], req_json = None\<rparr> demo_store))
   \<and> fst (delete_card store_remote demo_cfg ''mod2'' ''mod2_card_9'' demo_store)
        = (Json (JDict [(''success'', JBool True)]), 200)
   \<and> snd (delete_card store_remote demo_cfg ''mod2'' ''mod2_card_9'' demo_store) ''cards_mod2'' = Some []"
proof -
  let ?resp = "\<lparr>status_code = 200, resp_text = [], resp_reason = ''OK'', resp_json = Some (JList [])\<rparr>"
  let ?req = "\<lparr>req_method = DELETE, req_table = ''cards_mod2'',
                  req_params = [(''cardid'', ''eq.'' @ ''mod2_card_9'')], req_json = None\<rparr>"
  have h1: "map_of demo_cfg ''mod2'' = Some ''cards_mod2''" by (simp add: demo_cfg_def)
  have h2: "''cards_mod2'' \<noteq> []" by simp
  have h3: "store_remote ?req demo_store = (?resp, demo_store(''cards_mod2'' \<mapsto> []))"
    by (simp add: store_remote_def demo_store_def reply_rows_def)
  have h4: "ok ?resp" by (simp add: ok_def)
  from delete_reports_success[of demo_cfg "''mod2''" "''cards_mod2''" store_remote "''mod2_card_9''"
         demo_store ?resp "demo_store(''cards_mod2'' \<mapsto> [])", OF h1 h2 h3 h4] h1 h3 h4
  show ?thesis by simp
qed

section \<open>Update\<close>

text \<open>
  Claim C6, as the code has it. For a module that resolves to a table, when the remote
  answers the PATCH with success: an empty array gives 404 and the not-found error; a
  non-empty array whose first element is a row with both keys, every such row having
  a mapping as its \<^verbatim>\<open>data\<close>, gives 200 with \<^verbatim>\<open>{success, card}\<close>, the card being the
  first row reshaped.
\<close>

theorem update_reply:
  assumes "map_of cfg module_id = Some table_name" and "table_name \<noteq> []"
    and "remote \<lparr>req_method = PATCH, req_table = table_name,
                  req_params = [(''cardid'', ''eq.'' @ card_id)],
                  req_json = Some (JDict [(''data'', JDict (AList.delete ''cardid'' updates))])\<rparr> w = (resp, w')"
    and "ok resp"
  shows "(resp_json resp = Some (JList []) \<longrightarrow>
            update_card remote cfg module_id card_id (JDict updates) w = ((NotFound card_id, 404), w'))
       \<and> (\<forall>r rs. resp_json resp = Some (JList (r # rs)) \<and> has_keys r
                   \<and> (\<forall>j\<in>set (r # rs). has_keys j \<longrightarrow> data_is_dict j) \<longrightarrow>
            update_card remote cfg module_id card_id (JDict updates) w =
              ((Json (JDict [(''success'', JBool True), (''card'', reshape r)]), 200), w'))"
  using assms
  by (auto simp add: update_card_def supabase_fetch_ok transform_from_supabase_def transform_loop_acc)

text \<open>On the reference store: an update of a card that exists, and of one that does not.\<close>

theorem update_reply_witness:
  "fst (update_card store_remote demo_cfg ''mod1'' ''mod1_card_3''
          (JDict [(''cardid'', JStr ''x''), (''front'', JStr ''z'')]) demo_store)
     = (Json (JDict [(''success'', JBool True),
                     (''card'', JDict [(''front'', JStr ''z''), (''cardid'', JStr ''mod1_card_3'')])]), 200)
   \<and> fst (update_card store_remote demo_cfg ''mod1'' ''mod1_card_9''
          (JDict [(''cardid'', JStr ''x''), (''front'', JStr ''z'')]) demo_store)
     = (NotFound ''mod1_card_9'', 404)"
proof -
  let ?body = "Some (JDict [(''data'', JDict [(''front'', JStr ''z'')])])"
  let ?r3 = "\<lparr>req_method = PATCH, req_table = ''cards_mod1'',
               req_params = [(''cardid'', ''eq.mod1_card_3'')], req_json = ?body\<rparr>"
  let ?r9 = "\<lparr>req_method = PATCH, req_table = ''cards_mod1'',
               req_params = [(''cardid'', ''eq.mod1_card_9'')], req_json = ?body\<rparr>"
  let ?row = "JDict [(''cardid'', JStr ''mod1_card_3''), (''data'', JDict [(''front'', JStr ''z'')])]"
  have h1: "map_of demo_cfg ''mod1'' = Some ''cards_mod1''" by (simp add: demo_cfg_def)
  have j3: "fst (store_remote ?r3 demo_store)
              = \<lparr>status_code = 200, resp_text = [], resp_reason = ''OK'',
                 resp_json = Some (JList [?row])\<rparr>"
    by (simp add: store_remote_def demo_store_def matches_def patch_row_def dict_get_def
          reply_rows_def row_json_def)
  have j9: "fst (store_remote ?r9 demo_store)
              = \<lparr>status_code = 200, resp_text = [], resp_reason = ''OK'',
                 resp_json = Some (JList [])\<rparr>"
    by (simp add: store_remote_def demo_store_def matches_def patch_row_def dict_get_def
          reply_rows_def row_json_def)
  have rows: "has_keys ?row" "data_is_dict ?row"
    by (simp_all add: has_keys_def data_is_dict_def)
  have "fst (update_card store_remote demo_cfg ''mod1'' ''mod1_card_3''
          (JDict [(''cardid'', JStr ''x''), (''front'', JStr ''z'')]) demo_store)
     = (Json (JDict [(''success'', JBool True), (''card'', reshape ?row)]), 200)"
    using update_reply[of demo_cfg "''mod1''" "''cards_mod1''" store_remote "''mod1_card_3''"
         "[(''cardid'', JStr ''x''), (''front'', JStr ''z'')]" demo_store
         "fst (store_remote ?r3 demo_store)" "snd (store_remote ?r3 demo_store)"]
       h1 j3 rows
    by (simp add: ok_def prod_eq_iff)
  moreover
  have "fst (update_card store_remote demo_cfg ''mod1'' ''mod1_card_9''
          (JDict [(''cardid'', JStr ''x''), (''front'', JStr ''z'')]) demo_store)
     = (NotFound ''mod1_card_9'', 404)"
    using update_reply[of demo_cfg "''mod1''" "''cards_mod1''" store_remote "''mod1_card_9''"
         "[(''cardid'', JStr ''x''), (''front'', JStr ''z'')]" demo_store
         "fst (store_remote ?r9 demo_store)" "snd (store_remote ?r9 demo_store)"]
       h1 j9
    by (simp add: ok_def prod_eq_iff)
  ultimately show ?thesis by (simp add: reshape_def)
qed

text \<open>
  The claim as stated fails on a result that is not empty and whose only element has
  no \<^verbatim>\<open>data\<close>: the transform drops it, the index 0 raises, and the reply is 500.
\<close>

theorem update_reply_counterexample:
  "fst (update_card (fixed_remote (Some (JList [JDict [(''cardid'', JStr ''a'')]]))) demo_cfg
          ''mod1'' ''a'' (JDict [(''front'', JStr ''z'')]) ())
     = (Failure IndexError, 500)"
  by code_simp

lemma patch_row_fst: "map_of cols ''cardid'' = None \<Longrightarrow> fst (patch_row cols r) = fst r"
  by (simp add: patch_row_def)

lemma store_patch_ids:
  "map_option (map fst)
     (snd (store_remote \<lparr>req_method = PATCH, req_table = t, req_params = ps,
                          req_json = Some (JDict [(''data'', d)])\<rparr> s) t')
   = map_option (map fst) (s t')"
proof (cases "s t")
  case None
  then show ?thesis by (simp add: store_remote_def)
next
  case (Some rows)
  have "map fst (map (\<lambda>r. if matches ps r then patch_row [(''data'', d)] r else r) rows) = map fst rows"
    by (induction rows) (simp_all add: patch_row_fst)
  with Some show ?thesis by (simp add: store_remote_def)
qed

lemma fetch_patch_ids:
  "map_option (map fst)
     (snd (supabase_fetch store_remote cfg PATCH module_id ps (Some (JDict [(''data'', d)])) s) t')
   = map_option (map fst) (s t')"
proof (cases "map_of cfg module_id")
  case None
  then show ?thesis by (simp add: supabase_fetch_def)
next
  case (Some table_name)
  show ?thesis
  proof (cases "table_name = []")
    case True
    with Some show ?thesis by (simp add: supabase_fetch_def)
  next
    case False
    let ?req = "\<lparr>req_method = PATCH, req_table = table_name, req_params = ps,
                 req_json = Some (JDict [(''data'', d)])\<rparr>"
    have "snd (supabase_fetch store_remote cfg PATCH module_id ps (Some (JDict [(''data'', d)])) s)
            = snd (store_remote ?req s)"
      using Some False
      by (cases "store_remote ?req s") (simp add: supabase_fetch_def split: option.splits)
    then show ?thesis by (simp add: store_patch_ids)
  qed
qed

lemma update_card_snd:
  "snd (update_card remote cfg module_id card_id (JDict updates) w) =
   snd (supabase_fetch remote cfg PATCH module_id [(''cardid'', ''eq.'' @ card_id)]
          (Some (JDict [(''data'', JDict (AList.delete ''cardid'' updates))])) w)"
  by (cases "supabase_fetch remote cfg PATCH module_id [(''cardid'', ''eq.'' @ card_id)]
          (Some (JDict [(''data'', JDict (AList.delete ''cardid'' updates))])) w")
     (simp add: update_card_def Let_def split: sum.splits list.splits)

text \<open>
  Claim C5. Whatever the body of an Update, the ids of the rows of the reference store
  are the same after it, in every table. For a body that is a dict and a module that
  resolves, the one request sent is the PATCH whose body holds only \<^verbatim>\<open>data\<close>, the
  payload without its key \<^verbatim>\<open>cardid\<close>.
\<close>

theorem update_keeps_id:
  "(\<forall>t. map_option (map fst) (snd (update_card store_remote cfg module_id card_id body s) t)
          = map_option (map fst) (s t))
   \<and> (\<forall>updates table_name.
         map_of cfg module_id = Some table_name \<and> table_name \<noteq> [] \<longrightarrow>
         fst (snd (update_card (logged remote) cfg module_id card_id (JDict updates) ([], w))) =
           [\<lparr>req_method = PATCH, req_table = table_name,
             req_params = [(''cardid'', ''eq.'' @ card_id)],
             req_json = Some (JDict [(''data'', JDict (AList.delete ''cardid'' updates))])\<rparr>]
         \<and> map_of (AList.delete ''cardid'' updates) ''cardid'' = None)"
proof (intro conjI allI impI)
  fix t
  show "map_option (map fst) (snd (update_card store_remote cfg module_id card_id body s) t)
          = map_option (map fst) (s t)"
  proof (cases body)
    case (JDict updates)
    then show ?thesis by (simp add: update_card_snd fetch_patch_ids)
  qed (simp_all add: update_card_def)
next
  fix updates table_name
  assume "map_of cfg module_id = Some table_name \<and> table_name \<noteq> []"
  then show "fst (snd (update_card (logged remote) cfg module_id card_id (JDict updates) ([], w))) =
           [\<lparr>req_method = PATCH, req_table = table_name,
             req_params = [(''cardid'', ''eq.'' @ card_id)],
             req_json = Some (JDict [(''data'', JDict (AList.delete ''cardid'' updates))])\<rparr>]"
    by (simp add: update_card_snd fetch_logged)
next
  fix updates
  show "map_of (AList.delete ''cardid'' updates) ''cardid'' = None"
    by (simp add: delete_conv')
qed

text \<open>An update whose payload names another id.\<close>

theorem update_keeps_id_witness:
  "map_option (map fst)
     (snd (update_card store_remote demo_cfg ''mod1'' ''mod1_card_3''
             (JDict [(''cardid'', JStr ''x''), (''front'', JStr ''z'')]) demo_store) ''cards_mod1'')
     = Some [''mod1_card_1'', ''mod1_card_3'']
   \<and> fst (snd (update_card (logged store_remote) demo_cfg ''mod1'' ''mod1_card_3''
             (JDict [(''cardid'', JStr ''x''), (''front'', JStr ''z'')]) ([], demo_store)))
     = [\<lparr>req_method = PATCH, req_table = ''cards_mod1'',
         req_params = [(''cardid'', ''eq.mod1_card_3'')],
         req_json = Some (JDict [(''data'', JDict [(''front'', JStr ''z'')])])\<rparr>]"
  using update_keeps_id[of demo_cfg "''mod1''" "''mod1_card_3''"
          "JDict [(''cardid'', JStr ''x''), (''front'', JStr ''z'')]" demo_store store_remote demo_store]
  by (simp add: demo_cfg_def demo_store_def)

section \<open>A success with a body that is no JSON\<close>

lemma insert_nonjson:
  assumes "map_of cfg module_id = Some table_name" and "table_name \<noteq> []"
    and "remote \<lparr>req_method = POST, req_table = table_name, req_params = [],
                  req_json = Some (JDict [(''cardid'', c), (''data'', d)])\<rparr> w = (resp, w')"
    and "ok resp" and "resp_json resp = None"
  shows "add_card_insert remote cfg module_id c d w = ((Failure InsertFailed, 500), w')"
  using assms by (simp add: add_card_insert_def supabase_fetch_def)

text \<open>
  Claim C9. On a module that resolves, whenever the remote answers a call of
  \<^verbatim>\<open>supabase_fetch\<close> with a success status and a body that is not JSON, the call
  returns the empty list, raises nothing, and leaves the remote in the state after
  the call. So a Create whose insert is answered that way replies 500 with the
  insertion error, with the id of the body or with the id synthesised after a scan,
  and an Update whose PATCH is answered that way replies 404; in each case the state
  is the one the remote reached by serving the request.
\<close>

theorem nonjson_body:
  assumes "map_of cfg module_id = Some table_name" and "table_name \<noteq> []"
  shows
    "(\<forall>method params body w resp w'.
        remote \<lparr>req_method = method, req_table = table_name,
                req_params = params, req_json = body\<rparr> w = (resp, w')
        \<and> ok resp \<and> resp_json resp = None \<longrightarrow>
        supabase_fetch remote cfg method module_id params body w = (Inr (JList []), w'))
   \<and> (\<forall>payload w resp w'.
        truthy (dict_get payload ''cardid'' JNull)
        \<and> remote \<lparr>req_method = POST, req_table = table_name, req_params = [],
                  req_json = Some (JDict [(''cardid'', dict_get payload ''cardid'' JNull),
                                          (''data'', JDict payload)])\<rparr> w = (resp, w')
        \<and> ok resp \<and> resp_json resp = None \<longrightarrow>
        add_card remote cfg lim module_id (JDict payload) w = ((Failure InsertFailed, 500), w'))
   \<and> (\<forall>payload ids n new_id w sresp sw resp w'.
        \<not> truthy (dict_get payload ''cardid'' JNull)
        \<and> remote \<lparr>req_method = GET, req_table = table_name,
                  req_params = [(''select'', ''cardid'')], req_json = None\<rparr> w = (sresp, sw)
        \<and> ok sresp
        \<and> (case resp_json sresp of Some j \<Rightarrow> j | None \<Rightarrow> JList []) = JList (id_rows ids)
        \<and> n = Max (set (0 # List.map_filter (card_number lim module_id) ids)) + 1
        \<and> \<not> digits_exceed lim (length (str_int n))
        \<and> new_id = module_id @ ''_card_'' @ str_int n
        \<and> remote \<lparr>req_method = POST, req_table = table_name, req_params = [],
                  req_json = Some (JDict [(''cardid'', JStr new_id),
                                          (''data'', JDict (AList.update ''cardid'' (JStr new_id) payload))])\<rparr>
             sw = (resp, w')
        \<and> ok resp \<and> resp_json resp = None \<longrightarrow>
        add_card remote cfg lim module_id (JDict payload) w = ((Failure InsertFailed, 500), w'))
   \<and> (\<forall>updates card_id w resp w'.
        remote \<lparr>req_method = PATCH, req_table = table_name,
                req_params = [(''cardid'', ''eq.'' @ card_id)],
                req_json = Some (JDict [(''data'', JDict (AList.delete ''cardid'' updates))])\<rparr> w
          = (resp, w')
        \<and> ok resp \<and> resp_json resp = None \<longrightarrow>
        update_card remote cfg module_id card_id (JDict updates) w = ((NotFound card_id, 404), w'))"
proof (intro conjI allI impI, goal_cases)
  case (1 meth ps body w resp w')
  with assms show ?case by (simp add: supabase_fetch_def)
next
  case (2 payload w resp w')
  then have "add_card_insert remote cfg module_id (dict_get payload ''cardid'' JNull) (JDict payload) w
               = ((Failure InsertFailed, 500), w')"
    using assms by (simp add: insert_nonjson)
  with 2 show ?case by (simp add: add_card_def)
next
  case (3 payload ids n new_id w sresp sw resp w')
  then have f: "\<not> truthy (dict_get payload ''cardid'' JNull)"
    "remote \<lparr>req_method = GET, req_table = table_name,
             req_params = [(''select'', ''cardid'')], req_json = None\<rparr> w = (sresp, sw)"
    "ok sresp"
    "(case resp_json sresp of Some j \<Rightarrow> j | None \<Rightarrow> JList []) = JList (id_rows ids)"
    "n = Max (set (0 # List.map_filter (card_number lim module_id) ids)) + 1"
    "\<not> digits_exceed lim (length (str_int n))"
    "new_id = module_id @ ''_card_'' @ str_int n"
    and g: "remote \<lparr>req_method = POST, req_table = table_name, req_params = [],
                  req_json = Some (JDict [(''cardid'', JStr new_id),
                                          (''data'', JDict (AList.update ''cardid'' (JStr new_id) payload))])\<rparr>
             sw = (resp, w')"
    "ok resp" "resp_json resp = None"
    by blast+
  have "add_card remote cfg lim module_id (JDict payload) w =
           add_card_insert remote cfg module_id (JStr new_id)
             (JDict (AList.update ''cardid'' (JStr new_id) payload)) sw"
    by (rule add_card_scan[where remote = remote, OF f(1) assms f(2-7)])
  moreover have "add_card_insert remote cfg module_id (JStr new_id)
             (JDict (AList.update ''cardid'' (JStr new_id) payload)) sw
               = ((Failure InsertFailed, 500), w')"
    by (rule insert_nonjson[where remote = remote, OF assms g])
  ultimately show ?case by simp
next
  case (4 updates card_id w resp w')
  with assms show ?case by (simp add: update_card_def supabase_fetch_def)
qed

text \<open>
  The reference store answering its writes with an empty body: the Create and the
  Update below reach the store, which holds the new card and the new data after them,
  and the replies are the insertion error and not found.
\<close>

theorem nonjson_body_witness:
  "add_card minimal_remote demo_cfg 4300 ''mod1'' (JDict [(''front'', JStr ''q'')]) demo_store
     = ((Failure InsertFailed, 500),
        demo_store(''cards_mod1'' \<mapsto>
          [(''mod1_card_1'', JDict [(''front'', JStr ''a'')]),
           (''mod1_card_3'', JDict [(''front'', JStr ''c'')]),
           (''mod1_card_4'', JDict [(''front'', JStr ''q''), (''cardid'', JStr ''mod1_card_4'')])]))
   \<and> update_card minimal_remote demo_cfg ''mod1'' ''mod1_card_3'' (JDict [(''front'', JStr ''z'')])
       demo_store
     = ((NotFound ''mod1_card_3'', 404),
        demo_store(''cards_mod1'' \<mapsto>
          [(''mod1_card_1'', JDict [(''front'', JStr ''a'')]),
           (''mod1_card_3'', JDict [(''front'', JStr ''z'')])]))"
proof -
  let ?g = "\<lparr>req_method = GET, req_table = ''cards_mod1'',
             req_params = [(''select'', ''cardid'')], req_json = None\<rparr>"
  let ?r1 = "\<lparr>status_code = 200, resp_text = [], resp_reason = ''OK'',
              resp_json = Some (JList (id_rows [''mod1_card_1'', ''mod1_card_3'']))\<rparr>"
  let ?post = "\<lparr>req_method = POST, req_table = ''cards_mod1'', req_params = [],
                req_json = Some (JDict [(''cardid'', JStr ''mod1_card_4''),
                    (''data'', JDict (AList.update ''cardid'' (JStr ''mod1_card_4'')
                                        [(''front'', JStr ''q'')]))])\<rparr>"
  let ?s4 = "demo_store(''cards_mod1'' \<mapsto>
          [(''mod1_card_1'', JDict [(''front'', JStr ''a'')]),
           (''mod1_card_3'', JDict [(''front'', JStr ''c'')]),
           (''mod1_card_4'', JDict [(''front'', JStr ''q''), (''cardid'', JStr ''mod1_card_4'')])])"
  let ?r2 = "\<lparr>status_code = 201, resp_text = [], resp_reason = ''OK'', resp_json = None\<rparr>"
  let ?patch = "\<lparr>req_method = PATCH, req_table = ''cards_mod1'',
                 req_params = [(''cardid'', ''eq.'' @ ''mod1_card_3'')],
                 req_json = Some (JDict [(''data'', JDict (AList.delete ''cardid''
                                                            [(''front'', JStr ''z'')]))])\<rparr>"
  let ?s3 = "demo_store(''cards_mod1'' \<mapsto>
          [(''mod1_card_1'', JDict [(''front'', JStr ''a'')]),
           (''mod1_card_3'', JDict [(''front'', JStr ''z'')])])"
  let ?r3 = "\<lparr>status_code = 200, resp_text = [], resp_reason = ''OK'', resp_json = None\<rparr>"
  have h1: "map_of demo_cfg ''mod1'' = Some ''cards_mod1''" by (simp add: demo_cfg_def)
  have h2: "''cards_mod1'' \<noteq> []" by simp
  have h0: "\<not> truthy (dict_get [(''front'', JStr ''q'')] ''cardid'' JNull)"
    by (simp add: dict_get_def)
  have g: "minimal_remote ?g demo_store = (?r1, demo_store)"
    by (simp add: minimal_remote_def store_remote_def demo_store_def select_row_def
          limit_rows_def id_rows_def)
  have g1: "ok ?r1" by (simp add: ok_def)
  have g2: "(case resp_json ?r1 of Some j \<Rightarrow> j | None \<Rightarrow> JList [])
              = JList (id_rows [''mod1_card_1'', ''mod1_card_3''])" by simp
  have n: "(4::int) = Max (set (0 # List.map_filter (card_number 4300 ''mod1'')
                                         [''mod1_card_1'', ''mod1_card_3''])) + 1"
    by code_simp
  have d: "\<not> digits_exceed 4300 (length (str_int 4))" by code_simp
  have i: "''mod1_card_4'' = ''mod1'' @ ''_card_'' @ str_int 4" by code_simp
  have p: "minimal_remote ?post demo_store = (?r2, ?s4)"
    by (simp add: minimal_remote_def store_remote_def demo_store_def posted_rows_def
          reply_rows_def)
  have p1: "ok ?r2" "resp_json ?r2 = None" by (simp_all add: ok_def)
  have u: "minimal_remote ?patch demo_store = (?r3, ?s3)"
    by (simp add: minimal_remote_def store_remote_def demo_store_def matches_def patch_row_def
          dict_get_def reply_rows_def)
  have u1: "ok ?r3" "resp_json ?r3 = None" by (simp_all add: ok_def)
  note t = nonjson_body[OF h1 h2, of minimal_remote 4300]
  note t3 = t[THEN conjunct2, THEN conjunct2, THEN conjunct1, rule_format]
  note t4 = t[THEN conjunct2, THEN conjunct2, THEN conjunct2, rule_format]
  from t3[where payload = "[(''front'', JStr ''q'')]" and w = demo_store and sresp = ?r1
            and sw = demo_store and ids = "[''mod1_card_1'', ''mod1_card_3'']" and n = 4
            and new_id = "''mod1_card_4''" and resp = ?r2 and w' = ?s4]
       h0 g g1 g2 n d i p p1
  have a: "add_card minimal_remote demo_cfg 4300 ''mod1'' (JDict [(''front'', JStr ''q'')]) demo_store
             = ((Failure InsertFailed, 500), ?s4)"
    by blast
  from t4[where updates = "[(''front'', JStr ''z'')]" and card_id = "''mod1_card_3''"
            and w = demo_store and resp = ?r3 and w' = ?s3]
       u u1
  have b: "update_card minimal_remote demo_cfg ''mod1'' ''mod1_card_3''
             (JDict [(''front'', JStr ''z'')]) demo_store = ((NotFound ''mod1_card_3'', 404), ?s3)"
    by blast
  from a b show ?thesis by simp
qed

section \<open>Create\<close>

text \<open>
  What \<^verbatim>\<open>int\<close> drops around a numeral: not the separator 0x1F, but the no-break
  space.
\<close>

lemma py_int_separator:
  "py_int 4300 [char_of (31::nat), CHR ''7''] = None"
  "py_int 4300 [char_of (160::nat), CHR ''7''] = Some 7"
  by code_simp+

lemma insert_log:
  "fst (snd (add_card_insert (logged remote) cfg module_id c d (log, w)))
     = log @ fetch_reqs cfg POST module_id [] (Some (JDict [(''cardid'', c), (''data'', d)]))"
proof -
  have "snd (add_card_insert (logged remote) cfg module_id c d (log, w)) =
        snd (supabase_fetch (logged remote) cfg POST module_id []
               (Some (JDict [(''cardid'', c), (''data'', d)])) (log, w))"
    by (cases "supabase_fetch (logged remote) cfg POST module_id []
               (Some (JDict [(''cardid'', c), (''data'', d)])) (log, w)")
       (simp add: add_card_insert_def split: sum.splits)
  then show ?thesis by (simp add: fetch_log)
qed

text \<open>
  An id of the pattern of the specification, the prefix and then a decimal numeral,
  gives the scan that numeral. So where every existing id that starts with the
  prefix is of the pattern, the id assigned is the one the specification names.
\<close>

lemma py_split_plain: "sep \<notin> set s \<Longrightarrow> py_split sep s = [s]"
  by (induction s) auto

lemma py_split_nonempty: "py_split sep s \<noteq> []"
  by (induction s) (auto split: list.splits)

lemma py_split_two: "sep \<in> set s \<Longrightarrow> \<exists>a b rest. py_split sep s = a # b # rest"
proof (induction s)
  case Nil
  then show ?case by simp
next
  case (Cons c cs)
  show ?case
  proof (cases "c = sep")
    case True
    then show ?thesis
      by (cases "py_split sep cs") (simp_all add: py_split_nonempty)
  next
    case False
    with Cons.prems have "sep \<in> set cs" by simp
    from Cons.IH[OF this] False show ?thesis by auto
  qed
qed

lemma py_split_last: "sep \<notin> set ys \<Longrightarrow> last (py_split sep (xs @ sep # ys)) = ys"
proof (induction xs)
  case Nil
  then show ?case by (simp add: py_split_plain)
next
  case (Cons x xs)
  have "sep \<in> set (xs @ sep # ys)" by simp
  from py_split_two[OF this] obtain a b rest where
    "py_split sep (xs @ sep # ys) = a # b # rest" by blast
  with Cons show ?case by auto
qed

lemma digit_not_space: "is_digit c \<Longrightarrow> \<not> is_space c"
  by (auto simp: is_digit_def is_space_def Let_def)

lemma digit_not_sign: "is_digit c \<Longrightarrow> c \<noteq> CHR ''-'' \<and> c \<noteq> CHR ''+'' \<and> c \<noteq> CHR ''_''"
  by (auto simp: is_digit_def Let_def)

lemma py_strip_digits: "list_all is_digit ds \<Longrightarrow> py_strip ds = ds"
proof -
  assume a: "list_all is_digit ds"
  then have "\<forall>c\<in>set ds. \<not> is_space c" by (auto simp: list_all_iff digit_not_space)
  then have 1: "dropWhile is_space ds = ds"
    by (cases ds) auto
  from a have "\<forall>c\<in>set (rev ds). \<not> is_space c" by (auto simp: list_all_iff digit_not_space)
  then have 2: "dropWhile is_space (rev ds) = rev ds"
    by (cases "rev ds") auto
  show ?thesis by (simp add: py_strip_def 1 2)
qed

lemma py_int_digits:
  assumes "ds \<noteq> []" and "list_all is_digit ds" and "\<not> digits_exceed lim (length ds)"
  shows "py_int lim ds = Some (int (decimal ds))"
proof -
  from assms have "is_digit (hd ds)" by (cases ds) auto
  then have "hd ds \<noteq> CHR ''-''" "hd ds \<noteq> CHR ''+''" using digit_not_sign by blast+
  with assms show ?thesis by (simp add: py_int_def py_strip_digits Let_def)
qed

lemma spec_number_counted:
  assumes "spec_card_number module_id i = Some n"
    and lim: "\<not> digits_exceed lim (length (drop (length (module_id @ ''_card_'')) i))"
  shows "card_number lim module_id i = Some (int n)"
proof -
  let ?p = "module_id @ ''_card_''"
  let ?ds = "drop (length ?p) i"
  from assms(1) have s: "startswith i ?p" and ne: "?ds \<noteq> []" and dg: "list_all is_digit ?ds"
    and n: "n = decimal ?ds"
    by (auto simp: spec_card_number_def Let_def split: if_splits)
  from s have "i = ?p @ ?ds"
    by (metis append_take_drop_id startswith_def)
  then have i: "i = (module_id @ ''_card'') @ CHR ''_'' # ?ds" by simp
  from dg have "CHR ''_'' \<notin> set ?ds"
    using digit_not_sign by (auto simp: list_all_iff)
  then have "last (py_split CHR ''_'' ((module_id @ ''_card'') @ CHR ''_'' # ?ds)) = ?ds"
    by (rule py_split_last)
  with i have "last (py_split CHR ''_'' i) = ?ds" by simp
  with s ne dg n lim show ?thesis by (simp add: card_number_def py_int_digits)
qed

lemma numbers_on_plain_ids:
  assumes "\<forall>i\<in>set ids. startswith i (module_id @ ''_card_'') \<longrightarrow> plain_id lim module_id i"
  shows "List.map_filter (card_number lim module_id) ids
           = map int (List.map_filter (spec_card_number module_id) ids)"
  using assms
proof (induction ids)
  case Nil
  then show ?case by (simp add: map_filter_simps)
next
  case (Cons i ids)
  show ?case
  proof (cases "spec_card_number module_id i")
    case None
    with Cons.prems have "\<not> startswith i (module_id @ ''_card_'')"
      by (auto simp: plain_id_def)
    then have "card_number lim module_id i = None" by (simp add: card_number_def)
    with None Cons show ?thesis by (simp add: map_filter_simps)
  next
    case (Some n)
    then have "startswith i (module_id @ ''_card_'')"
      by (auto simp: spec_card_number_def Let_def split: if_splits)
    with Cons.prems have "\<not> digits_exceed lim (length (drop (length (module_id @ ''_card_'')) i))"
      by (simp add: plain_id_def)
    from spec_number_counted[OF Some this] Some Cons show ?thesis by (simp add: map_filter_simps)
  qed
qed

lemma Max_int_list: "Max (set (0 # map int ns)) = int (Max (set (0 # ns)))"
proof -
  have "int (Max (set (0 # ns))) = Max (int ` set (0 # ns))"
    by (rule mono_Max_commute) (auto simp: mono_def)
  then show ?thesis by simp
qed

lemma next_id_on_plain_ids:
  assumes "\<forall>i\<in>set ids. startswith i (module_id @ ''_card_'') \<longrightarrow> plain_id lim module_id i"
  shows "module_id @ ''_card_''
           @ str_int (Max (set (0 # List.map_filter (card_number lim module_id) ids)) + 1)
         = spec_next_id module_id ids"
proof -
  have "str_int (int k + 1) = str_nat (k + 1)" for k
    by (simp add: str_int_def nat_add_distrib)
  then show ?thesis
    by (simp only: numbers_on_plain_ids[OF assms] Max_int_list spec_next_id_def)
qed

text \<open>
  Claim C1, as the code has it. For a Create whose body carries no \<^verbatim>\<open>cardid\<close> (or a
  false one), on a module that resolves, when the scan returns the existing ids: the
  id assigned is \<^verbatim>\<open>{module}_card_{N+1}\<close>, where \<open>N\<close> is the greatest of 0 and the
  integers that \<^verbatim>\<open>int\<close> reads after the last underscore of the existing ids that
  start with \<^verbatim>\<open>{module}_card_\<close>, provided the numeral of \<open>N+1\<close> is within the bound
  of digits. The requests sent are the scan and the insert of the row with this id,
  the id written into the payload as well. Where every existing id that starts with
  the prefix is plain, of the pattern \<^verbatim>\<open>{module}_card_{N}\<close> with a numeral within the
  bound, this is the id of the specification: one above the greatest \<open>N\<close>, or 1.
\<close>

theorem create_assigns_next_id:
  assumes "\<not> truthy (dict_get payload ''cardid'' JNull)"
    and "map_of cfg module_id = Some table_name" and "table_name \<noteq> []"
    and "remote \<lparr>req_method = GET, req_table = table_name,
                  req_params = [(''select'', ''cardid'')], req_json = None\<rparr> w = (resp, w')"
    and "ok resp" and "resp_json resp = Some (JList (id_rows ids))"
    and "n = Max (set (0 # List.map_filter (card_number lim module_id) ids)) + 1"
    and "\<not> digits_exceed lim (length (str_int n))"
    and "new_id = module_id @ ''_card_'' @ str_int n"
  shows "add_card remote cfg lim module_id (JDict payload) w =
           add_card_insert remote cfg module_id (JStr new_id)
             (JDict (AList.update ''cardid'' (JStr new_id) payload)) w'
       \<and> fst (snd (add_card (logged remote) cfg lim module_id (JDict payload) ([], w))) =
           [\<lparr>req_method = GET, req_table = table_name,
              req_params = [(''select'', ''cardid'')], req_json = None\<rparr>,
            \<lparr>req_method = POST, req_table = table_name, req_params = [],
              req_json = Some (JDict [(''cardid'', JStr new_id),
                                      (''data'', JDict (AList.update ''cardid'' (JStr new_id) payload))])\<rparr>]
       \<and> ((\<forall>i\<in>set ids. startswith i (module_id @ ''_card_'') \<longrightarrow> plain_id lim module_id i)
            \<longrightarrow> new_id = spec_next_id module_id ids)"
proof -
  have "0 \<le> n" using assms(7) next_number_positive[of "List.map_filter (card_number lim module_id) ids"]
    by simp
  then have str: "py_str lim n = Inr (str_int n)"
    using assms(8) by (rule py_str_within)
  have scan: "scan_max lim module_id (id_rows ids) 0 = Inr (n - 1)"
    using assms(7) by (simp add: scan_max_Max)
  have get: "supabase_fetch remote cfg GET module_id [(''select'', ''cardid'')] None w
               = (Inr (JList (id_rows ids)), w')"
    using assms(2-6) by (simp add: supabase_fetch_def)
  have a: "add_card remote cfg lim module_id (JDict payload) w =
           add_card_insert remote cfg module_id (JStr new_id)
             (JDict (AList.update ''cardid'' (JStr new_id) payload)) w'"
    using assms(1,9) get scan str by (simp add: add_card_def Let_def)
  have lget: "supabase_fetch (logged remote) cfg GET module_id [(''select'', ''cardid'')] None ([], w)
               = (Inr (JList (id_rows ids)),
                  ([\<lparr>req_method = GET, req_table = table_name,
                     req_params = [(''select'', ''cardid'')], req_json = None\<rparr>], w'))"
    using assms(2-6) by (simp add: supabase_fetch_def logged_def)
  have l: "fst (snd (add_card (logged remote) cfg lim module_id (JDict payload) ([], w))) =
           [\<lparr>req_method = GET, req_table = table_name,
              req_params = [(''select'', ''cardid'')], req_json = None\<rparr>,
            \<lparr>req_method = POST, req_table = table_name, req_params = [],
              req_json = Some (JDict [(''cardid'', JStr new_id),
                                      (''data'', JDict (AList.update ''cardid'' (JStr new_id) payload))])\<rparr>]"
    using assms(1,2,3,9) lget scan str
    by (simp add: add_card_def Let_def insert_log fetch_reqs_def)
  have "new_id = spec_next_id module_id ids"
    if "\<forall>i\<in>set ids. startswith i (module_id @ ''_card_'') \<longrightarrow> plain_id lim module_id i"
    using next_id_on_plain_ids[OF that] assms(7,9) by simp
  with a l show ?thesis by blast
qed

text \<open>
  The example of the specification: the ids with 1 and 3 give the id with 4, under
  the bound of 4300 digits.
\<close>

theorem create_assigns_next_id_witness:
  "fst (snd (add_card (logged store_remote) demo_cfg 4300 ''mod1'' (JDict [(''front'', JStr ''q'')])
               ([], demo_store)))
     = [\<lparr>req_method = GET, req_table = ''cards_mod1'',
          req_params = [(''select'', ''cardid'')], req_json = None\<rparr>,
        \<lparr>req_method = POST, req_table = ''cards_mod1'', req_params = [],
          req_json = Some (JDict [(''cardid'', JStr ''mod1_card_4''),
                                  (''data'', JDict [(''front'', JStr ''q''),
                                                    (''cardid'', JStr ''mod1_card_4'')])])\<rparr>]
   \<and> ''mod1_card_4'' = spec_next_id ''mod1'' [''mod1_card_1'', ''mod1_card_3'']"
proof -
  let ?g = "\<lparr>req_method = GET, req_table = ''cards_mod1'',
             req_params = [(''select'', ''cardid'')], req_json = None\<rparr>"
  let ?resp = "\<lparr>status_code = 200, resp_text = [], resp_reason = ''OK'',
                resp_json = Some (JList (id_rows [''mod1_card_1'', ''mod1_card_3'']))\<rparr>"
  have h0: "\<not> truthy (dict_get [(''front'', JStr ''q'')] ''cardid'' JNull)"
    by (simp add: dict_get_def)
  have h1: "map_of demo_cfg ''mod1'' = Some ''cards_mod1''" by (simp add: demo_cfg_def)
  have h2: "''cards_mod1'' \<noteq> []" by simp
  have h3: "store_remote ?g demo_store = (?resp, demo_store)"
    by (simp add: store_remote_def demo_store_def select_row_def limit_rows_def id_rows_def)
  have h4: "ok ?resp" by (simp add: ok_def)
  have h5: "resp_json ?resp = Some (JList (id_rows [''mod1_card_1'', ''mod1_card_3'']))" by simp
  have h6: "(4::int) = Max (set (0 # List.map_filter (card_number 4300 ''mod1'')
                                         [''mod1_card_1'', ''mod1_card_3''])) + 1"
    by code_simp
  have h7: "\<not> digits_exceed 4300 (length (str_int 4))"
    by code_simp
  have h8: "''mod1_card_4'' = ''mod1'' @ ''_card_'' @ str_int 4"
    by code_simp
  have h9: "\<forall>i\<in>set [''mod1_card_1'', ''mod1_card_3''].
              startswith i (''mod1'' @ ''_card_'') \<longrightarrow> plain_id 4300 ''mod1'' i"
    by code_simp
  from create_assigns_next_id[of "[(''front'', JStr ''q'')]" demo_cfg "''mod1''" "''cards_mod1''"
         store_remote demo_store ?resp demo_store "[''mod1_card_1'', ''mod1_card_3'']" 4 4300
         "''mod1_card_4''", OF h0 h1 h2 h3 h4 h5 h6 h7 h8] h9
  show ?thesis by simp
qed

text \<open>
  The claim as stated fails on an id that starts with the prefix and goes on with
  another segment: \<^verbatim>\<open>mod1_card_x_7\<close> does not match \<^verbatim>\<open>mod1_card_{N}\<close>, yet the
  code reads 7 from it and assigns the id with 8, where the claim gives the id with 1.
\<close>

theorem create_id_counterexample:
  "fst (add_card store_remote demo_cfg 4300 ''mod1'' (JDict [(''front'', JStr ''q'')]) odd_store)
     = (Json (JDict [(''success'', JBool True),
                     (''card'', JDict [(''front'', JStr ''q''), (''cardid'', JStr ''mod1_card_8'')])]), 201)
   \<and> spec_next_id ''mod1'' [''mod1_card_x_7''] = ''mod1_card_1''"
  by code_simp

section \<open>Bulk import\<close>

lemma import_not_array:
  assumes "\<forall>cards. dict_get data ''cards'' JNull \<noteq> JList cards"
  shows "import_cards remote cfg module_id (JDict data) w = ((MustBeArray, 400), w)"
  using assms by (cases "dict_get data ''cards'' JNull") (simp_all add: import_cards_def)

lemma import_not_dict:
  assumes "\<forall>data. body \<noteq> JDict data"
  shows "import_cards remote cfg module_id body w = ((ImportFailed AttributeError, 500), w)"
  using assms by (cases body) (simp_all add: import_cards_def)

lemma import_no_cards:
  assumes "\<not> supplies_cards body"
  shows "import_cards remote cfg module_id body w =
           ((if is_object body then (MustBeArray, 400) else (ImportFailed AttributeError, 500)), w)"
proof (cases body)
  case (JDict data)
  with assms have "\<forall>cards. dict_get data ''cards'' JNull \<noteq> JList cards"
    by (auto simp: supplies_cards_def)
  then show ?thesis using JDict by (simp add: import_not_array is_object_def)
qed (simp_all add: import_not_dict is_object_def)

text \<open>
  Claim C4, as the code has it. When the body of a Bulk Import does not supply an
  array under \<^verbatim>\<open>cards\<close>, no request is sent: the world after it, and the record of
  requests, are those before it. When such a body is a JSON object, the reply is 400.
\<close>

theorem import_rejects_non_array:
  assumes "\<not> supplies_cards body"
  shows "snd (import_cards remote cfg module_id body w) = w
       \<and> snd (import_cards (logged remote) cfg module_id body ([], w)) = ([], w)
       \<and> (is_object body \<longrightarrow>
            fst (import_cards remote cfg module_id body w) = (MustBeArray, 400))"
  using assms by (simp add: import_no_cards)

text \<open>A body whose \<^verbatim>\<open>cards\<close> is a string, on the reference store.\<close>

theorem import_rejects_non_array_witness:
  "import_cards store_remote demo_cfg ''mod1'' (JDict [(''cards'', JStr ''none'')]) demo_store
     = ((MustBeArray, 400), demo_store)
   \<and> snd (import_cards (logged store_remote) demo_cfg ''mod1''
            (JDict [(''cards'', JStr ''none'')]) ([], demo_store)) = ([], demo_store)"
proof -
  have h: "\<not> supplies_cards (JDict [(''cards'', JStr ''none'')])"
    by (simp add: supplies_cards_def dict_get_def)
  have o: "is_object (JDict [(''cards'', JStr ''none'')])" by (simp add: is_object_def)
  from import_rejects_non_array[OF h, of store_remote demo_cfg "''mod1''" demo_store] o
  show ?thesis by (simp add: prod_eq_iff)
qed

text \<open>
  The claim as stated fails on a body that is no JSON object, here a JSON string:
  \<^verbatim>\<open>data.get\<close> raises before the array check and the reply is 500, not 400.
\<close>

theorem import_non_object_body:
  "\<not> supplies_cards (JStr ''cards'')
   \<and> fst (import_cards store_remote demo_cfg ''mod1'' (JStr ''cards'') demo_store)
       = (ImportFailed AttributeError, 500)"
  by (simp add: import_cards_def supplies_cards_def)

section \<open>Reset, then List\<close>

lemma rows_to_insert_cards:
  "list_all card_object cards \<Longrightarrow>
   rows_to_insert cards = Inr (map (\<lambda>c. row_json (card_id_of c, c)) cards)"
proof (induction cards)
  case Nil
  then show ?case by simp
next
  case (Cons c cards)
  then show ?case
    by (cases c)
       (auto simp: card_object_def card_id_of_def row_json_def dict_get_def
             split: option.splits json.splits)
qed

lemma parse_rows_cards:
  "parse_rows (map (\<lambda>c. row_json (card_id_of c, c)) cards) = Some (map (\<lambda>c. (card_id_of c, c)) cards)"
  by (induction cards) (simp_all add: row_json_def)

lemma update_fresh: "k \<notin> fst ` set al \<Longrightarrow> AList.update k v al = al @ [(k, v)]"
  by (induction al) auto

lemma fold_upsert_fresh:
  "distinct (map fst new) \<Longrightarrow> fst ` set new \<inter> fst ` set rows = {} \<Longrightarrow>
   fold upsert new rows = rows @ new"
proof (induction new arbitrary: rows)
  case Nil
  then show ?case by simp
next
  case (Cons r new)
  from Cons.prems have fresh: "fst r \<notin> fst ` set rows" by auto
  from Cons.prems have d: "distinct (map fst new)" by simp
  from Cons.prems have "fst ` set new \<inter> fst ` set (rows @ [r]) = {}" by auto
  with Cons.IH[OF d] have "fold upsert new (rows @ [r]) = (rows @ [r]) @ new" by blast
  moreover from fresh have "upsert r rows = rows @ [r]"
    by (simp add: upsert_def update_fresh)
  ultimately show ?case by simp
qed

lemma reshape_card_row:
  "card_object c \<Longrightarrow> reshape (row_json (card_id_of c, c)) = c"
  by (cases c)
     (auto simp: card_object_def card_id_of_def reshape_def row_json_def update_triv
           split: option.splits json.splits)

lemma has_keys_row [simp]: "has_keys (row_json r)"
  by (simp add: has_keys_def row_json_def)

lemma data_is_dict_card_row: "card_object c \<Longrightarrow> data_is_dict (row_json (card_id_of c, c))"
  by (cases c) (auto simp: card_object_def data_is_dict_def row_json_def)

lemma transform_card_rows:
  assumes "list_all card_object cards"
  shows "transform_from_supabase (JList (map (\<lambda>c. row_json (card_id_of c, c)) cards)) = Inr cards"
proof -
  let ?rows = "map (\<lambda>c. row_json (card_id_of c, c)) cards"
  from assms have "\<forall>j\<in>set ?rows. has_keys j \<longrightarrow> data_is_dict j"
    by (auto simp: list_all_iff data_is_dict_card_row)
  then have "transform_loop ?rows [] = Inr ([] @ map reshape (filter has_keys ?rows))"
    by (rule transform_loop_acc)
  moreover from assms have "map reshape (filter has_keys ?rows) = cards"
    by (induction cards) (simp_all add: reshape_card_row)
  ultimately show ?thesis by (simp add: transform_from_supabase_def)
qed

lemma store_delete_all:
  assumes "s t = Some rows"
  shows "store_remote \<lparr>req_method = DELETE, req_table = t,
                        req_params = [(''cardid'', ''not.is.null'')], req_json = None\<rparr> s
         = (reply_rows 200 rows, s(t \<mapsto> []))"
  using assms by (simp add: store_remote_def matches_def)

lemma store_bulk_insert:
  assumes "s t = Some []" and "distinct (map card_id_of cards)"
  shows "store_remote \<lparr>req_method = POST, req_table = t,
                        req_params = [(''on_conflict'', ''cardid'')],
                        req_json = Some (JList (map (\<lambda>c. row_json (card_id_of c, c)) cards))\<rparr> s
         = (reply_rows 201 (map (\<lambda>c. (card_id_of c, c)) cards),
            s(t \<mapsto> map (\<lambda>c. (card_id_of c, c)) cards))"
proof -
  have "distinct (map fst (map (\<lambda>c. (card_id_of c, c)) cards))"
    using assms(2) by (simp add: comp_def)
  then have "fold upsert (map (\<lambda>c. (card_id_of c, c)) cards) [] = [] @ map (\<lambda>c. (card_id_of c, c)) cards"
    by (rule fold_upsert_fresh) simp
  with assms(1) show ?thesis
    by (simp add: store_remote_def posted_rows_def parse_rows_cards)
qed

lemma store_get_all:
  assumes "s t = Some rows"
  shows "store_remote \<lparr>req_method = GET, req_table = t,
                        req_params = [(''select'', ''cardid,data'')], req_json = None\<rparr> s
         = (\<lparr>status_code = 200, resp_text = [], resp_reason = ''OK'',
             resp_json = Some (JList (map row_json rows))\<rparr>, s)"
  using assms by (simp add: store_remote_def select_row_def limit_rows_def)

text \<open>
  Claim C3, as the code has it. On the reference store, for a module that resolves to
  a table of the store, and a fixture file that is an array of card objects with
  pairwise distinct ids: Reset
  replies 200 with the number of cards, and List after it replies 200 with exactly
  the cards of the file, in their order.
\<close>

theorem reset_then_list:
  assumes "map_of cfg module_id = Some table_name" and "table_name \<noteq> []"
    and "s table_name = Some rows"
    and "fs (module_id @ ''_cards.json'') = Inr (JList cards)"
    and "list_all card_object cards" and "distinct (map card_id_of cards)"
  shows "fst (reset_cards store_remote cfg fs module_id s) = (ResetDone module_id (length cards), 200)
       \<and> get_all_cards store_remote cfg module_id (snd (reset_cards store_remote cfg fs module_id s))
           = ((Json (JList cards), 200), snd (reset_cards store_remote cfg fs module_id s))"
proof -
  let ?s1 = "s(table_name \<mapsto> [])"
  let ?s2 = "s(table_name \<mapsto> map (\<lambda>c. (card_id_of c, c)) cards)"
  have del: "supabase_fetch store_remote cfg DELETE module_id [(''cardid'', ''not.is.null'')] None s
               = (Inr (JList (map row_json rows)), ?s1)"
    using assms(1,2) store_delete_all[of s table_name rows, OF assms(3)]
    by (simp add: supabase_fetch_def reply_rows_def ok_def)
  have rows: "rows_to_insert cards = Inr (map (\<lambda>c. row_json (card_id_of c, c)) cards)"
    using assms(5) by (rule rows_to_insert_cards)
  have reset: "reset_cards store_remote cfg fs module_id s = ((ResetDone module_id (length cards), 200), ?s2)"
  proof (cases "cards = []")
    case True
    then show ?thesis using del rows assms(4) by (simp add: reset_cards_def)
  next
    case False
    have "?s1 table_name = Some []" by simp
    from store_bulk_insert[of ?s1 table_name cards, OF this assms(6)] False del rows assms(1,4)
    show ?thesis by (simp add: reset_cards_def)
  qed
  have "?s2 table_name = Some (map (\<lambda>c. (card_id_of c, c)) cards)" by simp
  from store_get_all[of ?s2 table_name, OF this] assms(1,2)
  have "supabase_fetch store_remote cfg GET module_id [(''select'', ''cardid,data'')] None ?s2
          = (Inr (JList (map (\<lambda>c. row_json (card_id_of c, c)) cards)), ?s2)"
    by (simp add: supabase_fetch_def ok_def comp_def)
  with transform_card_rows[OF assms(5)]
  have "get_all_cards store_remote cfg module_id ?s2 = ((Json (JList cards), 200), ?s2)"
    by (simp add: get_all_cards_def)
  with reset show ?thesis by simp
qed

text \<open>The fixture of two cards replaces the two cards of the reference store.\<close>

theorem reset_then_list_witness:
  "fst (reset_cards store_remote demo_cfg demo_files ''mod1'' demo_store) = (ResetDone ''mod1'' 2, 200)
   \<and> fst (get_all_cards store_remote demo_cfg ''mod1''
             (snd (reset_cards store_remote demo_cfg demo_files ''mod1'' demo_store)))
       = (Json (JList demo_cards), 200)"
proof -
  have h1: "map_of demo_cfg ''mod1'' = Some ''cards_mod1''" by (simp add: demo_cfg_def)
  have h2: "''cards_mod1'' \<noteq> []" by simp
  have h3: "demo_store ''cards_mod1'' = Some [(''mod1_card_1'', JDict [(''front'', JStr ''a'')]),
                                    (''mod1_card_3'', JDict [(''front'', JStr ''c'')])]"
    by (simp add: demo_store_def)
  have h4: "demo_files (''mod1'' @ ''_cards.json'') = Inr (JList demo_cards)"
    by (simp add: demo_files_def)
  have h5: "list_all card_object demo_cards" by (simp add: demo_cards_def card_object_def)
  have h6: "distinct (map card_id_of demo_cards)" by (simp add: demo_cards_def card_id_of_def)
  from reset_then_list[of demo_cfg "''mod1''" "''cards_mod1''" demo_store _ demo_files demo_cards,
         OF h1 h2 h3 h4 h5 h6]
  show ?thesis by (simp add: demo_cards_def)
qed

text \<open>
  The claim as stated fails on a fixture in which two card objects have the same id:
  the insert replaces the row of a key that is there, so Reset counts two cards and
  List returns one.
\<close>

theorem reset_then_list_counterexample:
  "list_all card_object dup_cards
   \<and> fst (reset_cards store_remote demo_cfg demo_files ''mod2'' demo_store) = (ResetDone ''mod2'' 2, 200)
   \<and> fst (get_all_cards store_remote demo_cfg ''mod2''
             (snd (reset_cards store_remote demo_cfg demo_files ''mod2'' demo_store)))
       = (Json (JList [JDict [(''cardid'', JStr ''c1''), (''front'', JStr ''two'')]]), 200)"
  by code_simp

section \<open>Where \<^verbatim>\<open>cardid\<close> occurs inside \<^verbatim>\<open>data\<close>\<close>

lemma create_sends_id:
  "list_all id_in_data (sent_rows (fst (snd (add_card (logged remote) cfg lim module_id body ([], w)))))"
proof (cases body)
  case (JDict payload)
  show ?thesis
  proof (cases "truthy (dict_get payload ''cardid'' JNull)")
    case True
    then have "map_of payload ''cardid'' \<noteq> None"
      by (cases "map_of payload ''cardid''") (simp_all add: dict_get_def)
    then have "id_in_data (JDict [(''cardid'', dict_get payload ''cardid'' JNull), (''data'', JDict payload)])"
      by (simp add: id_in_data_def)
    with sent_rows_write(1)[of cfg module_id "[]"
           "[(''cardid'', dict_get payload ''cardid'' JNull), (''data'', JDict payload)]"]
    have "list_all id_in_data (sent_rows (fetch_reqs cfg POST module_id []
            (Some (JDict [(''cardid'', dict_get payload ''cardid'' JNull), (''data'', JDict payload)]))))"
      by (auto simp: list_all_iff)
    with True JDict show ?thesis by (simp add: add_card_def insert_log)
  next
    case False
    obtain res log1 w1 where
      g: "supabase_fetch (logged remote) cfg GET module_id [(''select'', ''cardid'')] None ([], w)
            = (res, (log1, w1))"
      by (metis surj_pair)
    from fetch_log[of remote cfg GET module_id "[(''select'', ''cardid'')]" None "[]" w] g
    have l1: "sent_rows log1 = []" by simp
    have ins: "list_all id_in_data (sent_rows (fst (snd (add_card_insert (logged remote) cfg module_id c
                 (JDict (AList.update ''cardid'' c payload)) (log1, w1)))))" for c
    proof -
      have "id_in_data (JDict [(''cardid'', c), (''data'', JDict (AList.update ''cardid'' c payload))])"
        by (simp add: id_in_data_def update_conv')
      with sent_rows_write(1)[of cfg module_id "[]"
             "[(''cardid'', c), (''data'', JDict (AList.update ''cardid'' c payload))]"] l1
      show ?thesis by (auto simp: insert_log list_all_iff)
    qed
    from False JDict g l1 ins show ?thesis
      by (simp add: add_card_def Let_def split: sum.splits)
  qed
qed (simp_all add: add_card_def)

lemma update_strips_id:
  "list_all (\<lambda>row. \<not> id_in_data row)
     (sent_rows (fst (snd (update_card (logged remote) cfg module_id card_id body ([], w)))))"
proof (cases body)
  case (JDict updates)
  let ?b = "[(''data'', JDict (AList.delete ''cardid'' updates))]"
  have "snd (update_card (logged remote) cfg module_id card_id (JDict updates) ([], w)) =
        snd (supabase_fetch (logged remote) cfg PATCH module_id [(''cardid'', ''eq.'' @ card_id)]
               (Some (JDict ?b)) ([], w))"
    by (cases "supabase_fetch (logged remote) cfg PATCH module_id [(''cardid'', ''eq.'' @ card_id)]
               (Some (JDict ?b)) ([], w)")
       (simp add: update_card_def Let_def split: sum.splits list.splits)
  moreover have "\<not> id_in_data (JDict ?b)"
    by (simp add: id_in_data_def delete_conv')
  ultimately show ?thesis
    using JDict sent_rows_write(2)[of cfg module_id "[(''cardid'', ''eq.'' @ card_id)]" ?b]
    by (auto simp: fetch_log list_all_iff)
qed (simp_all add: update_card_def)

lemma reset_sends_whole:
  "list_all whole_card_row
     (sent_rows (fst (snd (reset_cards (logged remote) cfg fs module_id ([], w)))))"
proof -
  obtain res log1 w1 where
    d: "supabase_fetch (logged remote) cfg DELETE module_id [(''cardid'', ''not.is.null'')] None ([], w)
          = (res, (log1, w1))"
    by (metis surj_pair)
  from fetch_log[of remote cfg DELETE module_id "[(''cardid'', ''not.is.null'')]" None "[]" w] d
  have l1: "sent_rows log1 = []" by simp
  have post: "list_all whole_card_row (sent_rows (fst (snd (case logged remote
                \<lparr>req_method = POST, req_table = t, req_params = [(''on_conflict'', ''cardid'')],
                 req_json = Some (JList rows)\<rparr> (log1, w1) of
                (resp, w2) \<Rightarrow> if \<not> ok resp then (x resp, w2) else (y, w2)))))"
    if "rows_to_insert cards = Inr rows" for t rows cards and x :: "response \<Rightarrow> reply \<times> nat" and y
    using rows_whole[OF that] l1
    by (cases "remote \<lparr>req_method = POST, req_table = t, req_params = [(''on_conflict'', ''cardid'')],
                 req_json = Some (JList rows)\<rparr> w1")
       (simp add: logged_def sent_rows_bulk)
  show ?thesis
    using d l1 post
    by (simp add: reset_cards_def split: sum.splits option.splits)
qed

lemma import_sends_whole:
  "list_all whole_card_row
     (sent_rows (fst (snd (import_cards (logged remote) cfg module_id body ([], w)))))"
proof (cases body)
  case (JDict data)
  show ?thesis
  proof (cases "dict_get data ''cards'' JNull")
    case (JList cards_to_import)
    obtain res log1 w1 where
      d: "supabase_fetch (logged remote) cfg DELETE module_id [(''cardid'', ''not.is.null'')] None ([], w)
            = (res, (log1, w1))"
      by (metis surj_pair)
    from fetch_log[of remote cfg DELETE module_id "[(''cardid'', ''not.is.null'')]" None "[]" w] d
    have l1: "sent_rows log1 = []" by simp
    have post: "list_all whole_card_row (sent_rows (fst (snd (case logged remote
                  \<lparr>req_method = POST, req_table = t, req_params = [(''on_conflict'', ''cardid'')],
                   req_json = Some (JList rows)\<rparr> (log1, w1) of
                  (resp, w2) \<Rightarrow> if \<not> ok resp then (x resp, w2) else (y, w2)))))"
      if "rows_to_insert cards = Inr rows" for t rows cards and x :: "response \<Rightarrow> reply \<times> nat" and y
      using rows_whole[OF that] l1
      by (cases "remote \<lparr>req_method = POST, req_table = t, req_params = [(''on_conflict'', ''cardid'')],
                   req_json = Some (JList rows)\<rparr> w1")
         (simp add: logged_def sent_rows_bulk)
    show ?thesis
      using JDict JList d l1 post
      by (simp add: import_cards_def split: sum.splits option.splits)
  qed (simp_all add: JDict import_cards_def)
qed (simp_all add: import_cards_def)

lemma seeding_sends_whole:
  "list_all whole_card_row
     (sent_rows (fst (initialize_data (logged remote) cfg fs module_id ([], w))))"
proof (cases "map_of cfg module_id")
  case None
  then show ?thesis by (simp add: initialize_data_def)
next
  case (Some t)
  let ?g = "\<lparr>req_method = GET, req_table = t,
             req_params = [(''select'', ''cardid''), (''limit'', ''1'')], req_json = None\<rparr>"
  obtain resp w1 where g: "remote ?g w = (resp, w1)" by (metis surj_pair)
  then have lg: "logged remote ?g ([], w) = (resp, ([?g], w1))" by (simp add: logged_def)
  have l1: "sent_rows [?g] = []" by (simp add: sent_rows_def)
  have post: "list_all whole_card_row (sent_rows (fst (snd (logged remote
                \<lparr>req_method = POST, req_table = t, req_params = [(''on_conflict'', ''cardid'')],
                 req_json = Some (JList rows)\<rparr> ([?g], w1)))))"
    if "rows_to_insert cards = Inr rows" for rows cards
    using rows_whole[OF that] l1
    by (simp only: logged_fst sent_rows_append sent_rows_bulk) simp
  show ?thesis
    using Some lg l1 post
    by (simp add: initialize_data_def split: sum.splits option.splits)
qed

text \<open>
  Claim C2, as the code has it. Only Update keeps \<^verbatim>\<open>cardid\<close> out of \<^verbatim>\<open>data\<close>: the
  data it sends never has the key. Every row that Create sends has the key inside
  its data, since the id is written into the payload before the insert. Reset, Bulk
  Import and Seeding send each card whole as the data of its row, so the key is
  inside the data whenever the card carries it.
\<close>

theorem cardid_in_data:
  "list_all id_in_data
     (sent_rows (fst (snd (add_card (logged remote) cfg lim module_id body ([], w)))))
   \<and> list_all (\<lambda>row. \<not> id_in_data row)
       (sent_rows (fst (snd (update_card (logged remote) cfg module_id card_id body ([], w)))))
   \<and> list_all whole_card_row
       (sent_rows (fst (snd (reset_cards (logged remote) cfg fs module_id ([], w)))))
   \<and> list_all whole_card_row
       (sent_rows (fst (snd (import_cards (logged remote) cfg module_id body ([], w)))))
   \<and> list_all whole_card_row
       (sent_rows (fst (initialize_data (logged remote) cfg fs module_id ([], w))))"
  by (simp only: create_sends_id update_strips_id reset_sends_whole import_sends_whole
        seeding_sends_whole simp_thms)

text \<open>The rows sent by a Create and by an Update on the reference store.\<close>

theorem cardid_in_data_witness:
  "sent_rows (fst (snd (add_card (logged store_remote) demo_cfg 4300 ''mod1''
                          (JDict [(''front'', JStr ''q'')]) ([], demo_store))))
     = [JDict [(''cardid'', JStr ''mod1_card_4''),
               (''data'', JDict [(''front'', JStr ''q''), (''cardid'', JStr ''mod1_card_4'')])]]
   \<and> id_in_data (JDict [(''cardid'', JStr ''mod1_card_4''),
               (''data'', JDict [(''front'', JStr ''q''), (''cardid'', JStr ''mod1_card_4'')])])
   \<and> sent_rows (fst (snd (update_card (logged store_remote) demo_cfg ''mod1'' ''mod1_card_3''
                          (JDict [(''cardid'', JStr ''x''), (''front'', JStr ''z'')]) ([], demo_store))))
     = [JDict [(''data'', JDict [(''front'', JStr ''z'')])]]
   \<and> \<not> id_in_data (JDict [(''data'', JDict [(''front'', JStr ''z'')])])"
proof -
  have a: "sent_rows (fst (snd (add_card (logged store_remote) demo_cfg 4300 ''mod1''
                          (JDict [(''front'', JStr ''q'')]) ([], demo_store))))
     = [JDict [(''cardid'', JStr ''mod1_card_4''),
               (''data'', JDict [(''front'', JStr ''q''), (''cardid'', JStr ''mod1_card_4'')])]]"
    by code_simp
  have u: "sent_rows (fst (snd (update_card (logged store_remote) demo_cfg ''mod1'' ''mod1_card_3''
                          (JDict [(''cardid'', JStr ''x''), (''front'', JStr ''z'')]) ([], demo_store))))
     = [JDict [(''data'', JDict [(''front'', JStr ''z'')])]]"
    by code_simp
  from cardid_in_data[of store_remote demo_cfg 4300 "''mod1''" "JDict [(''front'', JStr ''q'')]" demo_store]
  have "id_in_data (JDict [(''cardid'', JStr ''mod1_card_4''),
               (''data'', JDict [(''front'', JStr ''q''), (''cardid'', JStr ''mod1_card_4'')])])"
    by (simp add: a)
  moreover
  from cardid_in_data[of store_remote demo_cfg 4300 "''mod1''"
         "JDict [(''cardid'', JStr ''x''), (''front'', JStr ''z'')]" demo_store "''mod1_card_3''"]
  have "\<not> id_in_data (JDict [(''data'', JDict [(''front'', JStr ''z'')])])"
    by (simp add: u)
  ultimately show ?thesis using a u by simp
qed

text \<open>
  The claim as stated fails on the first card created in an empty table: the stored
  row has its id inside its data.
\<close>

theorem cardid_in_data_counterexample:
  "snd (add_card store_remote demo_cfg 4300 ''mod2'' (JDict [(''front'', JStr ''q'')]) demo_store) ''cards_mod2''
     = Some [(''mod2_card_1'', JDict [(''front'', JStr ''q''), (''cardid'', JStr ''mod2_card_1'')])]
   \<and> id_in_data (row_json (''mod2_card_1'',
                   JDict [(''front'', JStr ''q''), (''cardid'', JStr ''mod2_card_1'')]))"
  by code_simp

end
